theory Spec2Isabelle
  imports Main "HOL-Library.Code_Target_Nat"
begin

section \<open>A shallow embedding of create-bmd\<close>

text \<open>
  create-bmd is a command-line scaffolder: it asks the operator for a mod's name, type and
  details, remembers the author and the donation link in a per-user config file, looks for the
  installation of Bot Maker for Discord and writes the files of the new mod from templates.
  This theory embeds \<^verbatim>\<open>src/bin/index.js\<close> function by function and proves what the
  specification says about it. The functions keep their names; line numbers refer to that
  file.

  Everything the program does beyond computing values is explicit: the file system, the console
  and the operator's keyboard input make up a \<open>world\<close> that every effectful function takes and
  returns; a thrown error is the \<open>Inl\<close> of a sum. What the program calls but does not define
  (the string methods of the language, the \<^verbatim>\<open>fs\<close> and \<^verbatim>\<open>path\<close> modules, the prompt
  library, \<^verbatim>\<open>JSON\<close>) is modelled as far as the program uses it, and each such model says
  what it leaves out.
\<close>

subsection \<open>Strings\<close>

text \<open>
  A string of the language is a sequence of UTF-16 code units; a code unit is modelled as a
  natural number (the values below 65536 are the ones that occur), and \<open>js\<close> embeds a literal
  of ASCII characters.
\<close>

type_synonym jsstring = "nat list"

definition js :: "string \<Rightarrow> jsstring" where
  "js s = map of_char s"

text \<open>
  \<open>is_ws\<close> is the set that \<^verbatim>\<open>\s\<close> and \<^verbatim>\<open>trim\<close> share: the white space and line
  terminator code points of the language. \<open>is_word\<close> is \<^verbatim>\<open>\w\<close> (without the unicode
  flag): the ASCII letters, the digits and the underscore.
\<close>

definition is_ws :: "nat \<Rightarrow> bool" where
  "is_ws c \<longleftrightarrow>
     (9 \<le> c \<and> c \<le> 13) \<or> c = 32 \<or> c = 160 \<or> c = 5760 \<or> (8192 \<le> c \<and> c \<le> 8202) \<or>
     c = 8232 \<or> c = 8233 \<or> c = 8239 \<or> c = 8287 \<or> c = 12288 \<or> c = 65279"

definition is_word :: "nat \<Rightarrow> bool" where
  "is_word c \<longleftrightarrow> (48 \<le> c \<and> c \<le> 57) \<or> (65 \<le> c \<and> c \<le> 90) \<or> c = 95 \<or> (97 \<le> c \<and> c \<le> 122)"

definition is_alnum :: "nat \<Rightarrow> bool" where
  "is_alnum c \<longleftrightarrow> (48 \<le> c \<and> c \<le> 57) \<or> (65 \<le> c \<and> c \<le> 90) \<or> (97 \<le> c \<and> c \<le> 122)"

text \<open>
  \<^verbatim>\<open>toLowerCase\<close> and \<^verbatim>\<open>toUpperCase\<close>. The two maps are exact on the code units of
  Latin-1 (U+0000 to U+00FF): the letters A to Z and U+00C0 to U+00DE (without the
  multiplication sign U+00D7) have lowercase forms 32 above; the uppercase mapping of U+00DF
  is the two letters "SS", that of U+00FF is U+0178 and that of U+00B5 is U+039C. Code units
  above U+00FF are left as they are: their case mappings are not modelled, and the theorems
  about case are stated for Latin-1 input.
\<close>

definition is_upper_letter :: "nat \<Rightarrow> bool" where
  "is_upper_letter c \<longleftrightarrow> (65 \<le> c \<and> c \<le> 90) \<or> (192 \<le> c \<and> c \<le> 214) \<or> (216 \<le> c \<and> c \<le> 222)"

definition is_lower_letter :: "nat \<Rightarrow> bool" where
  "is_lower_letter c \<longleftrightarrow> (97 \<le> c \<and> c \<le> 122) \<or> (224 \<le> c \<and> c \<le> 246) \<or> (248 \<le> c \<and> c \<le> 254)"

definition lower_cu :: "nat \<Rightarrow> nat" where
  "lower_cu c = (if is_upper_letter c then c + 32 else c)"

definition upper_cu :: "nat \<Rightarrow> jsstring" where
  "upper_cu c =
     (if is_lower_letter c then [c - 32]
      else if c = 223 then [83, 83]
      else if c = 255 then [376]
      else if c = 181 then [924]
      else [c])"

definition toLowerCase :: "jsstring \<Rightarrow> jsstring" where
  "toLowerCase s = map lower_cu s"

definition toUpperCase :: "jsstring \<Rightarrow> jsstring" where
  "toUpperCase s = concat (map upper_cu s)"

text \<open>\<^verbatim>\<open>trim\<close> removes the white space at both ends.\<close>

definition trim :: "jsstring \<Rightarrow> jsstring" where
  "trim s = rev (dropWhile is_ws (rev (dropWhile is_ws s)))"

text \<open>
  \<open>split_runs sep [] s\<close> is \<^verbatim>\<open>s.split(/[...]+/)\<close> for a character class \<open>sep\<close>: the pieces
  of \<open>s\<close> between the maximal runs of separators. A run at the very start or end gives an
  empty first or last piece, and the empty string gives one empty piece. \<open>cur\<close> is the piece
  being read.
\<close>

function split_runs :: "(nat \<Rightarrow> bool) \<Rightarrow> jsstring \<Rightarrow> jsstring \<Rightarrow> jsstring list" where
  "split_runs sep cur [] = [cur]"
| "split_runs sep cur (c # cs) =
     (if sep c then cur # split_runs sep [] (dropWhile sep cs)
      else split_runs sep (cur @ [c]) cs)"
  by pat_completeness auto

termination
  by (relation "measure (\<lambda>(sep, cur, s). length s)")
     (auto simp: length_dropWhile_le less_Suc_eq_le)

text \<open>
  \<open>strip_runs p s\<close> is \<^verbatim>\<open>s.replace(/[...]+/g, "")\<close>, which deletes every maximal run of
  characters of the class \<open>p\<close>, and \<open>strip_chars p s\<close> is \<^verbatim>\<open>s.replace(/[...]/g, "")\<close>,
  which deletes them one by one.
\<close>

function strip_runs :: "(nat \<Rightarrow> bool) \<Rightarrow> jsstring \<Rightarrow> jsstring" where
  "strip_runs p [] = []"
| "strip_runs p (c # cs) =
     (if p c then strip_runs p (dropWhile p cs) else c # strip_runs p cs)"
  by pat_completeness auto

termination
  by (relation "measure (\<lambda>(p, s). length s)")
     (auto simp: length_dropWhile_le less_Suc_eq_le)

definition strip_chars :: "(nat \<Rightarrow> bool) \<Rightarrow> jsstring \<Rightarrow> jsstring" where
  "strip_chars p s = filter (\<lambda>c. \<not> p c) s"

text \<open>
  \<^verbatim>\<open>toCamelCase\<close> (lines 241 to 252). The class \<^verbatim>\<open>[\s-_]\<close> is white space, the hyphen
  (45) and the underscore (95): a hyphen next to a class escape stands for itself.
  \<open>camelWord\<close> is the function given to \<^verbatim>\<open>map\<close>; \<^verbatim>\<open>charAt(0)\<close> is \<open>take 1\<close> and
  \<^verbatim>\<open>slice(1)\<close> is \<open>drop 1\<close>. \<open>camelWords\<close> names the result of the split.
\<close>

definition is_camel_sep :: "nat \<Rightarrow> bool" where
  "is_camel_sep c \<longleftrightarrow> is_ws c \<or> c = 45 \<or> c = 95"

definition camelWord :: "nat \<Rightarrow> jsstring \<Rightarrow> jsstring" where
  "camelWord index word =
     (let lowerWord = toLowerCase word
      in if index = 0 then lowerWord
         else toUpperCase (take 1 lowerWord) @ drop 1 lowerWord)"

definition camelWords :: "jsstring \<Rightarrow> jsstring list" where
  "camelWords str = split_runs is_camel_sep [] (trim str)"

definition toCamelCase :: "jsstring \<Rightarrow> jsstring" where
  "toCamelCase str =
     concat (map (\<lambda>(index, word). camelWord index word) (enumerate 0 (camelWords str)))"

text \<open>\<^verbatim>\<open>sanitizeFolderName\<close> (lines 260 to 262).\<close>

definition sanitizeFolderName :: "jsstring \<Rightarrow> jsstring" where
  "sanitizeFolderName name =
     strip_chars (\<lambda>c. \<not> (is_word c \<or> c = 45)) (strip_runs is_ws name)"


definition is_lowercase :: "jsstring \<Rightarrow> bool" where
  "is_lowercase s \<longleftrightarrow> toLowerCase s = s"

definition is_uppercase :: "jsstring \<Rightarrow> bool" where
  "is_uppercase s \<longleftrightarrow> toUpperCase s = s"


subsection \<open>Paths and the file system\<close>

text \<open>
  A path is kept in resolved form: the list of its segments from the root, the drive being the
  first segment. \<open>path_join base parts\<close> is \<^verbatim>\<open>path.join\<close> applied to a resolved base and
  further strings, on the platform the known install locations belong to (win32, where both
  the slash, 47, and the backslash, 92, separate segments): the parts are cut at the separators
  and normalised, an empty segment and \<^verbatim>\<open>.\<close> being skipped and \<^verbatim>\<open>..\<close> removing the
  last segment but never the drive. \<open>resolve\<close> reads a path string the same way. Relative paths
  and symbolic links are not modelled.

  The file system maps a path to a file with its text or to a directory; the root is a
  directory. \<^verbatim>\<open>existsSync\<close>, \<^verbatim>\<open>readFileSync\<close>, \<^verbatim>\<open>writeFileSync\<close> and
  \<^verbatim>\<open>mkdirSync\<close> with \<^verbatim>\<open>recursive: true\<close> fail as the platform's do for a missing
  parent, a directory in place of a file and a file in place of a directory. Permissions and
  full disks are not modelled.
\<close>

type_synonym path = "jsstring list"

datatype node = File jsstring | Dir

type_synonym filesystem = "path \<rightharpoonup> node"

definition is_path_sep :: "nat \<Rightarrow> bool" where
  "is_path_sep c \<longleftrightarrow> c = 47 \<or> c = 92"

fun split_on :: "(nat \<Rightarrow> bool) \<Rightarrow> jsstring \<Rightarrow> jsstring \<Rightarrow> jsstring list" where
  "split_on sep cur [] = [cur]"
| "split_on sep cur (c # cs) =
     (if sep c then cur # split_on sep [] cs else split_on sep (cur @ [c]) cs)"

definition apply_segment :: "path \<Rightarrow> jsstring \<Rightarrow> path" where
  "apply_segment p seg =
     (if seg = [] \<or> seg = [46] then p
      else if seg = [46, 46] then (if length p \<le> 1 then p else butlast p)
      else p @ [seg])"

definition path_join :: "path \<Rightarrow> jsstring list \<Rightarrow> path" where
  "path_join base parts =
     foldl apply_segment base (concat (map (split_on is_path_sep []) parts))"

definition resolve :: "jsstring \<Rightarrow> path" where
  "resolve s = path_join [] [s]"

text \<open>
  The errors that can be thrown. \<open>TemplateFailed\<close> is the error \<^verbatim>\<open>processTemplate\<close>
  raises in place of any error of its body, \<open>UnsupportedModType\<close> the one of \<^verbatim>\<open>createMod\<close>.
  \<open>RegexNotModelled\<close> marks the one place where the model stops: a placeholder that contains
  regular-expression syntax.
\<close>

datatype exn =
    ExitPromptError
  | TypeError
  | ENOENT path
  | EISDIR path
  | EEXIST path
  | TemplateFailed path
  | RegexNotModelled jsstring
  | UnsupportedModType "jsstring option"

definition lookup :: "filesystem \<Rightarrow> path \<Rightarrow> node option" where
  "lookup f p = (if p = [] then Some Dir else f p)"

definition existsSync :: "filesystem \<Rightarrow> path \<Rightarrow> bool" where
  "existsSync f p \<longleftrightarrow> lookup f p \<noteq> None"

definition readFileSync :: "filesystem \<Rightarrow> path \<Rightarrow> exn + jsstring" where
  "readFileSync f p =
     (case lookup f p of
        Some (File text) \<Rightarrow> Inr text
      | Some Dir \<Rightarrow> Inl (EISDIR p)
      | None \<Rightarrow> Inl (ENOENT p))"

definition writeFileSync :: "filesystem \<Rightarrow> path \<Rightarrow> jsstring \<Rightarrow> exn + filesystem" where
  "writeFileSync f p text =
     (if lookup f p = Some Dir then Inl (EISDIR p)
      else if lookup f (butlast p) = Some Dir then Inr (f(p \<mapsto> File text))
      else Inl (ENOENT p))"

fun mkdirs :: "filesystem \<Rightarrow> path \<Rightarrow> path \<Rightarrow> exn + filesystem" where
  "mkdirs f base [] = Inr f"
| "mkdirs f base (s # ss) =
     (case lookup f (base @ [s]) of
        Some (File text) \<Rightarrow> Inl (EEXIST (base @ [s]))
      | Some Dir \<Rightarrow> mkdirs f (base @ [s]) ss
      | None \<Rightarrow> mkdirs (f(base @ [s] \<mapsto> Dir)) (base @ [s]) ss)"

definition mkdirSync :: "filesystem \<Rightarrow> path \<Rightarrow> exn + filesystem" where
  "mkdirSync f p = mkdirs f [] p"

subsection \<open>The operator, the console and the world\<close>

text \<open>
  The operator is the list of responses still to come, one for each time a question is shown:
  a typed line, a choice in a list (the number of times the cursor is moved down before
  Enter) or an interrupt. The end of the list is an interrupt.

  A console message stands for one call of \<^verbatim>\<open>console.log\<close>, \<^verbatim>\<open>console.warn\<close> or
  \<^verbatim>\<open>console.error\<close>, named after what it says and carrying the values put into its
  text; the three streams are not told apart. \<open>ErrorOccurred\<close> stands for the two lines of
  the error handler (lines 627 and 628); the stack trace of development mode is left out.
\<close>

datatype response = Typed jsstring | Chosen nat | Interrupt

datatype msg =
    Blank
  | FoundInstallation path
  | UsingSavedPath jsstring
  | NotFoundInCommonLocations
  | PathSaved
  | WarnSaveConfig exn
  | WarnLoadConfig
  | ModCreated jsstring path
  | InstallationNotFound
  | InstallHint
  | InstallHintManual
  | ConfigLocation path
  | Creating "jsstring option" "jsstring option"
  | Completed
  | ReadyToUse
  | Cancelled
  | ErrorOccurred exn

record world =
  fs :: filesystem
  console :: "msg list"
  keys :: "response list"

definition say :: "msg \<Rightarrow> world \<Rightarrow> world" where
  "say m w = w\<lparr>console := console w @ [m]\<rparr>"

text \<open>
  An effectful function returns a value or a thrown error, and the world it left.
  \<open>andThen\<close> sequences two steps: a thrown error skips the rest.
\<close>

type_synonym 'a outcome = "(exn + 'a) \<times> world"

fun andThen :: "'a outcome \<Rightarrow> ('a \<Rightarrow> world \<Rightarrow> 'b outcome) \<Rightarrow> 'b outcome" where
  "andThen (Inl e, w) k = (Inl e, w)"
| "andThen (Inr a, w) k = k a w"

definition fsStep :: "(filesystem \<Rightarrow> exn + filesystem) \<Rightarrow> world \<Rightarrow> unit outcome" where
  "fsStep op w = (case op (fs w) of Inl e \<Rightarrow> (Inl e, w) | Inr f \<Rightarrow> (Inr (), w\<lparr>fs := f\<rparr>))"

subsection \<open>The prompt library\<close>

text \<open>
  \<^verbatim>\<open>inquirer.prompt\<close> is a library of its own; the model states what the program relies on.
  The questions are asked in order. An input question takes the typed line, or its default
  when the line is empty, and is shown again until the validator accepts the answer; a list
  question returns one of its choices; an interrupt throws \<open>ExitPromptError\<close>. The answers
  object has one key for each question asked. A typed line given to a list question selects
  the first choice, and a choice given to an input question is an empty line.
\<close>

datatype qkind = InputQ | ListQ

record question =
  qname :: string
  qkind :: qkind
  qdefault :: "jsstring option"
  qvalidate :: "jsstring \<Rightarrow> bool"
  qchoices :: "jsstring list"

type_synonym answers = "string \<rightharpoonup> jsstring"

definition entered :: "question \<Rightarrow> response \<Rightarrow> jsstring" where
  "entered q r =
     (let typed = (case r of Typed t \<Rightarrow> t | _ \<Rightarrow> [])
      in if typed = [] then (case qdefault q of Some d \<Rightarrow> d | None \<Rightarrow> []) else typed)"

definition picked :: "question \<Rightarrow> response \<Rightarrow> jsstring option" where
  "picked q r =
     (let n = (case r of Chosen n \<Rightarrow> n | _ \<Rightarrow> 0)
      in if qchoices q = [] then None else Some (qchoices q ! (n mod length (qchoices q))))"

fun ask :: "question \<Rightarrow> response list \<Rightarrow> jsstring option \<times> response list" where
  "ask q [] = (None, [])"
| "ask q (r # rs) =
     (if r = Interrupt then (None, rs)
      else case qkind q of
        ListQ \<Rightarrow> (picked q r, rs)
      | InputQ \<Rightarrow> (if qvalidate q (entered q r) then (Some (entered q r), rs) else ask q rs))"

fun prompt_loop :: "question list \<Rightarrow> answers \<Rightarrow> response list \<Rightarrow> answers option \<times> response list" where
  "prompt_loop [] acc rs = (Some acc, rs)"
| "prompt_loop (q # qs) acc rs =
     (case ask q rs of
        (None, rs') \<Rightarrow> (None, rs')
      | (Some a, rs') \<Rightarrow> prompt_loop qs (acc(qname q \<mapsto> a)) rs')"

definition prompt :: "question list \<Rightarrow> world \<Rightarrow> answers outcome" where
  "prompt qs w =
     (case prompt_loop qs Map.empty (keys w) of
        (None, rs) \<Rightarrow> (Inl ExitPromptError, w\<lparr>keys := rs\<rparr>)
      | (Some a, rs) \<Rightarrow> (Inr a, w\<lparr>keys := rs\<rparr>))"

text \<open>
  The validator of the required fields (lines 276 to 281, 312 to 317 and 335 to 340), and the
  absent validator.
\<close>

definition required :: "jsstring \<Rightarrow> bool" where
  "required input \<longleftrightarrow> \<not> (input = [] \<or> length (trim input) = 0)"

definition accept_all :: "jsstring \<Rightarrow> bool" where
  "accept_all input \<longleftrightarrow> True"

subsection \<open>Constants of the program\<close>

text \<open>
  \<^verbatim>\<open>COMMON_BMD_PATHS\<close> (lines 18 to 21), in resolved form, and \<^verbatim>\<open>MOD_TYPES\<close> (lines 26
  to 56), an object whose keys keep their order. A descriptor without
  \<^verbatim>\<open>defaultCategory\<close> has \<open>None\<close> there, and one without \<^verbatim>\<open>isFolder\<close> has \<open>False\<close>.
\<close>

definition COMMON_BMD_PATHS :: "path list" where
  "COMMON_BMD_PATHS =
     [[js ''C:'', js ''Program Files (x86)'', js ''Steam'', js ''steamapps'', js ''common'',
       js ''Bot Maker For Discord''],
      [js ''C:'', js ''Program Files'', js ''Steam'', js ''steamapps'', js ''common'',
       js ''Bot Maker For Discord'']]"

record modType =
  typeName :: jsstring
  requiresCategory :: bool
  defaultCategory :: "jsstring option"
  outputPath :: jsstring
  isFolder :: bool

definition Action :: modType where
  "Action = \<lparr>typeName = js ''Action'', requiresCategory = True,
     defaultCategory = Some (js ''Message''), outputPath = js ''AppData/Actions'', isFolder = False\<rparr>"

definition Event :: modType where
  "Event = \<lparr>typeName = js ''Event'', requiresCategory = False,
     defaultCategory = None, outputPath = js ''AppData/Events'', isFolder = False\<rparr>"

definition Automation :: modType where
  "Automation = \<lparr>typeName = js ''Automation'', requiresCategory = False,
     defaultCategory = None, outputPath = js ''Automations'', isFolder = True\<rparr>"

definition Theme :: modType where
  "Theme = \<lparr>typeName = js ''Theme'', requiresCategory = False,
     defaultCategory = None, outputPath = js ''Themes'', isFolder = True\<rparr>"

definition Translation :: modType where
  "Translation = \<lparr>typeName = js ''Translation'', requiresCategory = False,
     defaultCategory = None, outputPath = js ''Translations'', isFolder = True\<rparr>"

definition MOD_TYPES :: "(jsstring \<times> modType) list" where
  "MOD_TYPES =
     [(js ''Action'', Action), (js ''Event'', Event), (js ''Automation'', Automation),
      (js ''Theme'', Theme), (js ''Translation'', Translation)]"

subsection \<open>Configuration\<close>

text \<open>
  A configuration is an object with string values. What \<^verbatim>\<open>JSON.parse\<close> returns is such
  an object or \<^verbatim>\<open>null\<close> (on which reading a property throws); other JSON values are not
  modelled. \<^verbatim>\<open>JSON.parse\<close> and \<^verbatim>\<open>JSON.stringify\<close> are parameters of the model, together
  with the two paths computed when the module is loaded: the config folder
  (\<^verbatim>\<open>getAppDataFolder()\<close>, line 63) and the directory of the script (line 60).
  \<open>getProp\<close> reads a property, \<open>spread\<close> is the object spread, \<open>truthy\<close> the truth value of
  a string or \<^verbatim>\<open>undefined\<close>, and \<open>orElse\<close> is \<^verbatim>\<open>||\<close>.
\<close>

type_synonym config = "string \<rightharpoonup> jsstring"

datatype jsonval = JNull | JObject config

record runtime =
  JSON_parse :: "jsstring \<Rightarrow> jsonval option"
  JSON_stringify :: "config \<Rightarrow> jsstring"
  configFolder :: path
  dirname :: path

definition configFile :: "runtime \<Rightarrow> path" where
  "configFile rt = path_join (configFolder rt) [js ''config.json'']"

definition getProp :: "jsonval \<Rightarrow> string \<Rightarrow> exn + jsstring option" where
  "getProp v k = (case v of JNull \<Rightarrow> Inl TypeError | JObject m \<Rightarrow> Inr (m k))"

definition spread :: "jsonval \<Rightarrow> config" where
  "spread v = (case v of JNull \<Rightarrow> Map.empty | JObject m \<Rightarrow> m)"

definition truthy :: "jsstring option \<Rightarrow> bool" where
  "truthy v \<longleftrightarrow> (case v of None \<Rightarrow> False | Some s \<Rightarrow> s \<noteq> [])"

text \<open>\<^verbatim>\<open>findBMDInstallation\<close> (lines 103 to 112).\<close>

fun first_existing :: "filesystem \<Rightarrow> path list \<Rightarrow> path option" where
  "first_existing f [] = None"
| "first_existing f (p # ps) = (if existsSync f p then Some p else first_existing f ps)"

definition findBMDInstallation :: "world \<Rightarrow> path option \<times> world" where
  "findBMDInstallation w =
     (case first_existing (fs w) COMMON_BMD_PATHS of
        Some installPath \<Rightarrow> (Some installPath, say (FoundInstallation installPath) w)
      | None \<Rightarrow> (None, w))"

text \<open>
  \<^verbatim>\<open>promptForBMDPath\<close> (lines 119 to 152); \<open>validBMDPath\<close> is its validator (lines 126 to
  147).
\<close>

definition validBMDPath :: "filesystem \<Rightarrow> jsstring \<Rightarrow> bool" where
  "validBMDPath f input \<longleftrightarrow>
     (if input = [] \<or> length (trim input) = 0 then False
      else let trimmedPath = trim input in
        if \<not> existsSync f (resolve trimmedPath) then False
        else let expectedFiles = [js ''Bot Maker For Discord.exe'', js ''resources''];
                 hasExpectedFiles =
                   list_ex (\<lambda>file. existsSync f (path_join (resolve trimmedPath) [file])) expectedFiles
             in hasExpectedFiles)"

definition promptForBMDPath :: "world \<Rightarrow> jsstring outcome" where
  "promptForBMDPath w =
     andThen
       (prompt [\<lparr>qname = ''customPath'', qkind = InputQ, qdefault = None,
                 qvalidate = validBMDPath (fs w), qchoices = []\<rparr>] w)
       (\<lambda>a w'. case a ''customPath'' of
                  None \<Rightarrow> (Inl TypeError, w')
                | Some customPath \<Rightarrow> (Inr (trim customPath), w'))"

text \<open>
  \<^verbatim>\<open>ensureConfigFolderExists\<close> (lines 192 to 196), \<^verbatim>\<open>saveConfig\<close> (lines 203 to 212),
  whose write is inside the \<^verbatim>\<open>try\<close> while the creation of the folder is not, and
  \<^verbatim>\<open>loadConfig\<close> (lines 219 to 232).
\<close>

definition ensureConfigFolderExists :: "runtime \<Rightarrow> world \<Rightarrow> unit outcome" where
  "ensureConfigFolderExists rt w =
     (if \<not> existsSync (fs w) (configFolder rt)
      then fsStep (\<lambda>f. mkdirSync f (configFolder rt)) w
      else (Inr (), w))"

definition saveConfig :: "runtime \<Rightarrow> config \<Rightarrow> world \<Rightarrow> unit outcome" where
  "saveConfig rt config w =
     andThen (ensureConfigFolderExists rt w)
       (\<lambda>_ w'. case writeFileSync (fs w') (configFile rt) (JSON_stringify rt config) of
                  Inr f \<Rightarrow> (Inr (), w'\<lparr>fs := f\<rparr>)
                | Inl error \<Rightarrow> (Inr (), say (WarnSaveConfig error) w'))"

definition loadConfig :: "runtime \<Rightarrow> world \<Rightarrow> jsonval outcome" where
  "loadConfig rt w =
     (if \<not> existsSync (fs w) (configFile rt) then (Inr (JObject Map.empty), w)
      else case readFileSync (fs w) (configFile rt) of
             Inl error \<Rightarrow> (Inr (JObject Map.empty), say WarnLoadConfig w)
           | Inr text \<Rightarrow>
               (case JSON_parse rt text of
                  None \<Rightarrow> (Inr (JObject Map.empty), say WarnLoadConfig w)
                | Some v \<Rightarrow> (Inr v, w)))"

text \<open>\<^verbatim>\<open>getBMDPath\<close> (lines 160 to 187). No function of the program calls it.\<close>

definition getBMDPath :: "runtime \<Rightarrow> jsonval \<Rightarrow> world \<Rightarrow> path outcome" where
  "getBMDPath rt config w =
     (case getProp config ''bmdPath'' of
        Inl e \<Rightarrow> (Inl e, w)
      | Inr bmdPath \<Rightarrow>
          if truthy bmdPath \<and> existsSync (fs w) (resolve (the bmdPath))
          then (Inr (resolve (the bmdPath)), say (UsingSavedPath (the bmdPath)) w)
          else case findBMDInstallation w of
                 (Some autoDetectedPath, w1) \<Rightarrow> (Inr autoDetectedPath, w1)
               | (None, w1) \<Rightarrow>
                   andThen (promptForBMDPath (say NotFoundInCommonLocations w1))
                     (\<lambda>userPath w2.
                        andThen (saveConfig rt ((spread config)(''bmdPath'' \<mapsto> userPath)) w2)
                          (\<lambda>_ w3. (Inr (resolve userPath), say PathSaved w3))))"

subsection \<open>The two prompt passes\<close>

text \<open>
  \<^verbatim>\<open>promptForInitialInfo\<close> (lines 269 to 290) and \<^verbatim>\<open>promptForDetailedInfo\<close> (lines 299
  to 345). The second reads \<^verbatim>\<open>config.author\<close> and \<^verbatim>\<open>config.donation\<close> while it builds
  the questions, then looks the mod type up in \<^verbatim>\<open>MOD_TYPES\<close> and puts the category question
  first when the type requires one.
\<close>

definition orElse :: "jsstring option \<Rightarrow> jsstring \<Rightarrow> jsstring" where
  "orElse v d = (if truthy v then the v else d)"

definition promptForInitialInfo :: "world \<Rightarrow> answers outcome" where
  "promptForInitialInfo w =
     prompt
       [\<lparr>qname = ''modName'', qkind = InputQ, qdefault = Some (js ''My Mod''),
         qvalidate = required, qchoices = []\<rparr>,
        \<lparr>qname = ''modType'', qkind = ListQ, qdefault = None,
         qvalidate = accept_all, qchoices = map fst MOD_TYPES\<rparr>] w"

definition promptForDetailedInfo :: "answers \<Rightarrow> jsonval \<Rightarrow> world \<Rightarrow> answers outcome" where
  "promptForDetailedInfo initialAnswers config w =
     (case getProp config ''author'' of
        Inl e \<Rightarrow> (Inl e, w)
      | Inr author \<Rightarrow>
     (case getProp config ''donation'' of
        Inl e \<Rightarrow> (Inl e, w)
      | Inr donation \<Rightarrow>
     (let questions =
        [\<lparr>qname = ''modDescription'', qkind = InputQ,
          qdefault = Some (js ''Created with create-bmd''), qvalidate = accept_all, qchoices = []\<rparr>,
         \<lparr>qname = ''modAuthor'', qkind = InputQ,
          qdefault = Some (orElse author (js ''Your Name'')), qvalidate = required, qchoices = []\<rparr>,
         \<lparr>qname = ''modDonation'', qkind = InputQ,
          qdefault = Some (orElse donation []), qvalidate = accept_all, qchoices = []\<rparr>]
      in case initialAnswers ''modType'' of
           None \<Rightarrow> (Inl TypeError, w)
         | Some modType \<Rightarrow>
        (case map_of MOD_TYPES modType of
           None \<Rightarrow> (Inl TypeError, w)
         | Some modTypeConfig \<Rightarrow>
             if requiresCategory modTypeConfig
             then prompt
                    (\<lparr>qname = ''modCategory'', qkind = InputQ,
                      qdefault = defaultCategory modTypeConfig, qvalidate = required,
                      qchoices = []\<rparr> # questions) w
             else prompt questions w))))"

subsection \<open>Templates\<close>

text \<open>
  \<^verbatim>\<open>processTemplate\<close> (lines 354 to 370) builds, for each entry of the replacement map, the
  global regular expression \<^verbatim>\<open>//placeholder//\<close> and calls \<^verbatim>\<open>replace\<close> with the value, or
  the empty string when the value is falsy. For a placeholder without regular-expression
  syntax the expression matches the marker literally; \<open>regex_special\<close> lists the characters
  that would make it mean something else.

  \<open>replace_global pat tpl [] [] s\<close> is that call: it scans \<open>s\<close> from the left, and at each
  match of \<open>pat\<close> it puts the expansion of the replacement pattern \<open>tpl\<close> and goes on after
  the match (\<open>skip\<close> holds what is left of a match being passed over, \<open>seen\<close> the text
  read so far, last character first). \<open>getSubstitution\<close> expands the replacement pattern as the
  language defines it for an expression without groups: \<^verbatim>\<open>$$\<close> is a dollar sign,
  \<^verbatim>\<open>$&\<close> the matched text, \<^verbatim>\<open>$`\<close> the text before the match and \<^verbatim>\<open>$'\<close> the text after
  it; every other character stands for itself.
\<close>

definition regex_special :: "nat \<Rightarrow> bool" where
  "regex_special c \<longleftrightarrow> c \<in> {92, 94, 36, 46, 42, 43, 63, 40, 41, 91, 93, 123, 125, 124}"

fun getSubstitution :: "jsstring \<Rightarrow> jsstring \<Rightarrow> jsstring \<Rightarrow> jsstring \<Rightarrow> jsstring" where
  "getSubstitution matched left right [] = []"
| "getSubstitution matched left right [c] = [c]"
| "getSubstitution matched left right (c # d # r) =
     (if c = 36 \<and> d = 36 then 36 # getSubstitution matched left right r
      else if c = 36 \<and> d = 38 then matched @ getSubstitution matched left right r
      else if c = 36 \<and> d = 96 then left @ getSubstitution matched left right r
      else if c = 36 \<and> d = 39 then right @ getSubstitution matched left right r
      else c # getSubstitution matched left right (d # r))"

fun match_prefix :: "jsstring \<Rightarrow> jsstring \<Rightarrow> jsstring option" where
  "match_prefix [] s = Some s"
| "match_prefix (p # ps) [] = None"
| "match_prefix (p # ps) (c # cs) = (if p = c then match_prefix ps cs else None)"

fun replace_global :: "jsstring \<Rightarrow> jsstring \<Rightarrow> jsstring \<Rightarrow> jsstring \<Rightarrow> jsstring \<Rightarrow> jsstring" where
  "replace_global pat tpl skip seen [] = []"
| "replace_global pat tpl (p # ps) seen (c # cs) = replace_global pat tpl ps (c # seen) cs"
| "replace_global pat tpl [] seen (c # cs) =
     (case (if pat = [] then None else match_prefix pat (c # cs)) of
        Some rest \<Rightarrow>
          getSubstitution pat (rev seen) rest tpl @ replace_global pat tpl (tl pat) (c # seen) cs
      | None \<Rightarrow> c # replace_global pat tpl [] (c # seen) cs)"

definition marker :: "jsstring \<Rightarrow> jsstring" where
  "marker placeholder = js ''//'' @ placeholder @ js ''//''"

fun substitute :: "(jsstring \<times> jsstring option) list \<Rightarrow> jsstring \<Rightarrow> exn + jsstring" where
  "substitute [] content = Inr content"
| "substitute ((placeholder, v) # rest) content =
     (if list_ex regex_special placeholder then Inl (RegexNotModelled placeholder)
      else substitute rest (replace_global (marker placeholder) (orElse v []) [] [] content))"

definition processTemplate ::
  "filesystem \<Rightarrow> path \<Rightarrow> (jsstring \<times> jsstring option) list \<Rightarrow> exn + jsstring" where
  "processTemplate f templatePath replacements =
     (case readFileSync f templatePath of
        Inl error \<Rightarrow> Inl (TemplateFailed templatePath)
      | Inr content \<Rightarrow> substitute replacements content)"

subsection \<open>Generation\<close>

text \<open>
  \<^verbatim>\<open>createActionMod\<close> (lines 378 to 394), \<^verbatim>\<open>createEventMod\<close> (lines 402 to 417),
  \<^verbatim>\<open>createAutomationMod\<close> (lines 425 to 459), whose loop over the templates is
  \<open>writeTemplates\<close>, \<^verbatim>\<open>createThemeMod\<close> (lines 467 to 491), \<^verbatim>\<open>createTranslationMod\<close>
  (lines 499 to 527) and \<^verbatim>\<open>createMod\<close> (lines 536 to 556). A mod without a name makes
  the name functions throw. The templates are files of the world, below the directory of the
  script.
\<close>

definition createActionMod :: "runtime \<Rightarrow> path \<Rightarrow> answers \<Rightarrow> world \<Rightarrow> unit outcome" where
  "createActionMod rt bmdPath modInfo w =
     (case modInfo ''modName'' of
        None \<Rightarrow> (Inl TypeError, w)
      | Some modName \<Rightarrow>
          let fileName = toCamelCase modName @ js ''_MOD.js'';
              templatePath = path_join (dirname rt) [js ''templates'', js ''Action.js'']
          in case processTemplate (fs w) templatePath
                    [(js ''name'', modInfo ''modName''),
                     (js ''author'', modInfo ''modAuthor''),
                     (js ''description'', modInfo ''modDescription''),
                     (js ''category'', modInfo ''modCategory''),
                     (js ''donation'', modInfo ''modDonation'')] of
               Inl e \<Rightarrow> (Inl e, w)
             | Inr content \<Rightarrow>
                 let outPath = path_join bmdPath [outputPath Action, fileName]
                 in andThen (fsStep (\<lambda>f. writeFileSync f outPath content) w)
                      (\<lambda>_ w'. (Inr (), say (ModCreated (js ''Action'') outPath) w')))"

definition createEventMod :: "runtime \<Rightarrow> path \<Rightarrow> answers \<Rightarrow> world \<Rightarrow> unit outcome" where
  "createEventMod rt bmdPath modInfo w =
     (case modInfo ''modName'' of
        None \<Rightarrow> (Inl TypeError, w)
      | Some modName \<Rightarrow>
          let fileName = toCamelCase modName @ js ''_MOD.js'';
              templatePath = path_join (dirname rt) [js ''templates'', js ''Event.js'']
          in case processTemplate (fs w) templatePath
                    [(js ''name'', modInfo ''modName''),
                     (js ''author'', modInfo ''modAuthor''),
                     (js ''description'', modInfo ''modDescription''),
                     (js ''donation'', modInfo ''modDonation'')] of
               Inl e \<Rightarrow> (Inl e, w)
             | Inr content \<Rightarrow>
                 let outPath = path_join bmdPath [outputPath Event, fileName]
                 in andThen (fsStep (\<lambda>f. writeFileSync f outPath content) w)
                      (\<lambda>_ w'. (Inr (), say (ModCreated (js ''Event'') outPath) w')))"

definition folderReplacements :: "answers \<Rightarrow> (jsstring \<times> jsstring option) list" where
  "folderReplacements modInfo =
     [(js ''name'', modInfo ''modName''),
      (js ''author'', modInfo ''modAuthor''),
      (js ''description'', modInfo ''modDescription''),
      (js ''donation'', modInfo ''modDonation'')]"

fun writeTemplates ::
  "runtime \<Rightarrow> path \<Rightarrow> (jsstring \<times> jsstring option) list \<Rightarrow> (jsstring \<times> jsstring) list \<Rightarrow>
   world \<Rightarrow> unit outcome" where
  "writeTemplates rt outPath replacements [] w = (Inr (), w)"
| "writeTemplates rt outPath replacements ((name, template) # rest) w =
     (case processTemplate (fs w) (path_join (dirname rt) [js ''templates'', template]) replacements of
        Inl e \<Rightarrow> (Inl e, w)
      | Inr content \<Rightarrow>
          andThen (fsStep (\<lambda>f. writeFileSync f (path_join outPath [name]) content) w)
            (\<lambda>_ w'. writeTemplates rt outPath replacements rest w'))"

definition createAutomationMod :: "runtime \<Rightarrow> path \<Rightarrow> answers \<Rightarrow> world \<Rightarrow> unit outcome" where
  "createAutomationMod rt bmdPath modInfo w =
     (case modInfo ''modName'' of
        None \<Rightarrow> (Inl TypeError, w)
      | Some modName \<Rightarrow>
          let folderName = sanitizeFolderName modName;
              outPath = path_join bmdPath [outputPath Automation, folderName];
              templates =
                [(js ''data.json'', js ''Automation/data.json''),
                 (js ''main.js'', js ''Automation/main.js''),
                 (js ''startup.js'', js ''Automation/startup.js''),
                 (js ''startup_info.json'', js ''Automation/startup_info.json'')]
          in andThen (fsStep (\<lambda>f. mkdirSync f outPath) w)
               (\<lambda>_ w1. andThen (writeTemplates rt outPath (folderReplacements modInfo) templates w1)
                  (\<lambda>_ w2. (Inr (), say (ModCreated (js ''Automation'') outPath) w2))))"

definition createThemeMod :: "runtime \<Rightarrow> path \<Rightarrow> answers \<Rightarrow> world \<Rightarrow> unit outcome" where
  "createThemeMod rt bmdPath modInfo w =
     (case modInfo ''modName'' of
        None \<Rightarrow> (Inl TypeError, w)
      | Some modName \<Rightarrow>
          let folderName = sanitizeFolderName modName;
              outPath = path_join bmdPath [outputPath Theme, folderName]
          in andThen (fsStep (\<lambda>f. mkdirSync f outPath) w)
               (\<lambda>_ w1.
                  let dataTemplate = path_join (dirname rt) [js ''templates'', js ''Theme'', js ''data.json'']
                  in case processTemplate (fs w1) dataTemplate (folderReplacements modInfo) of
                       Inl e \<Rightarrow> (Inl e, w1)
                     | Inr dataContent \<Rightarrow>
                         let cssTemplate = path_join (dirname rt) [js ''templates'', js ''Theme'', js ''theme.css'']
                         in case readFileSync (fs w1) cssTemplate of
                              Inl e \<Rightarrow> (Inl e, w1)
                            | Inr cssContent \<Rightarrow>
                                andThen (fsStep (\<lambda>f. writeFileSync f (path_join outPath [js ''data.json'']) dataContent) w1)
                                  (\<lambda>_ w2. andThen (fsStep (\<lambda>f. writeFileSync f (path_join outPath [js ''theme.css'']) cssContent) w2)
                                     (\<lambda>_ w3. (Inr (), say (ModCreated (js ''Theme'') outPath) w3)))))"

definition createTranslationMod :: "runtime \<Rightarrow> path \<Rightarrow> answers \<Rightarrow> world \<Rightarrow> unit outcome" where
  "createTranslationMod rt bmdPath modInfo w =
     (case modInfo ''modName'' of
        None \<Rightarrow> (Inl TypeError, w)
      | Some modName \<Rightarrow>
          let folderName = sanitizeFolderName modName;
              outPath = path_join bmdPath [outputPath Translation, folderName]
          in andThen (fsStep (\<lambda>f. mkdirSync f outPath) w)
               (\<lambda>_ w1.
                  let dataTemplate = path_join (dirname rt) [js ''templates'', js ''Translation'', js ''data.json'']
                  in case processTemplate (fs w1) dataTemplate (folderReplacements modInfo) of
                       Inl e \<Rightarrow> (Inl e, w1)
                     | Inr dataContent \<Rightarrow>
                         let stringsTemplate = path_join (dirname rt) [js ''templates'', js ''Translation'', js ''strings.json'']
                         in case readFileSync (fs w1) stringsTemplate of
                              Inl e \<Rightarrow> (Inl e, w1)
                            | Inr stringsContent \<Rightarrow>
                                andThen (fsStep (\<lambda>f. writeFileSync f (path_join outPath [js ''data.json'']) dataContent) w1)
                                  (\<lambda>_ w2. andThen (fsStep (\<lambda>f. writeFileSync f (path_join outPath [js ''strings.json'']) stringsContent) w2)
                                     (\<lambda>_ w3. (Inr (), say (ModCreated (js ''Translation'') outPath) w3)))))"

definition createMod :: "runtime \<Rightarrow> jsstring option \<Rightarrow> path \<Rightarrow> answers \<Rightarrow> world \<Rightarrow> unit outcome" where
  "createMod rt modType bmdPath modInfo w =
     (if modType = Some (js ''Action'') then createActionMod rt bmdPath modInfo w
      else if modType = Some (js ''Event'') then createEventMod rt bmdPath modInfo w
      else if modType = Some (js ''Automation'') then createAutomationMod rt bmdPath modInfo w
      else if modType = Some (js ''Theme'') then createThemeMod rt bmdPath modInfo w
      else if modType = Some (js ''Translation'') then createTranslationMod rt bmdPath modInfo w
      else (Inl (UnsupportedModType modType), w))"

subsection \<open>The run\<close>

text \<open>
  \<^verbatim>\<open>main\<close> (lines 561 to 637), in the order of its statements. \<open>main_generate\<close> is the
  part from the detection of the installation on (lines 591 to 618), \<open>main_after_load\<close> the
  part after the configuration is loaded (lines 571 to 618), \<open>main_try\<close> the whole body of the
  \<^verbatim>\<open>try\<close>, and \<open>main\<close> adds the handler: the exit code is 0 when the body returns or the
  operator cancelled, and 1 for every other error.
\<close>

definition main_generate :: "runtime \<Rightarrow> answers \<Rightarrow> world \<Rightarrow> unit outcome" where
  "main_generate rt modInfo w =
     (case findBMDInstallation w of
        (None, w1) \<Rightarrow>
          (Inr (), say (ConfigLocation (configFile rt)) (say InstallHintManual (say InstallHint (say InstallationNotFound w1))))
      | (Some bmdPath, w1) \<Rightarrow>
          andThen
            (createMod rt (modInfo ''modType'') bmdPath modInfo
               (say (Creating (modInfo ''modType'') (modInfo ''modName'')) w1))
            (\<lambda>_ w2. (Inr (), say ReadyToUse (say Completed w2))))"

definition updatedConfig :: "jsonval \<Rightarrow> answers \<Rightarrow> config" where
  "updatedConfig config modInfo =
     (spread config)(''author'' := modInfo ''modAuthor'', ''donation'' := modInfo ''modDonation'')"

definition main_after_load :: "runtime \<Rightarrow> jsonval \<Rightarrow> world \<Rightarrow> unit outcome" where
  "main_after_load rt config w =
     andThen (promptForInitialInfo w)
       (\<lambda>initialAnswers w1.
          andThen (promptForDetailedInfo initialAnswers config w1)
            (\<lambda>detailedAnswers w2.
               let modInfo = initialAnswers ++ detailedAnswers
               in andThen (saveConfig rt (updatedConfig config modInfo) w2)
                    (\<lambda>_ w3. main_generate rt modInfo w3)))"

definition main_try :: "runtime \<Rightarrow> world \<Rightarrow> unit outcome" where
  "main_try rt w =
     andThen (ensureConfigFolderExists rt (say Blank w))
       (\<lambda>_ w1. andThen (loadConfig rt w1) (\<lambda>config w2. main_after_load rt config w2))"

definition main :: "runtime \<Rightarrow> world \<Rightarrow> nat \<times> world" where
  "main rt w =
     (case main_try rt w of
        (Inr _, w') \<Rightarrow> (0, w')
      | (Inl error, w') \<Rightarrow>
          if error = ExitPromptError then (0, say Cancelled w')
          else (1, say (ErrorOccurred error) w'))"

subsection \<open>The Action template\<close>

text \<open>
  The text of \<^verbatim>\<open>src/bin/templates/Action.js\<close>, line by line, and the text expected for the
  mod "My Cool Mod" by "Alex", described as "desc", of category "Message" and without a
  donation link.
\<close>

fun join_lines :: "jsstring list \<Rightarrow> jsstring" where
  "join_lines [] = []"
| "join_lines [l] = l"
| "join_lines (l # m # ls) = l @ [10] @ join_lines (m # ls)"

definition Action_template_lines :: "jsstring list" where
  \<open>Action_template_lines =
    [js ''/*'',
     js ''    //name// mod by //author//'',
     js ''    Licensed under MIT License'',
     js '''',
     js ''    //description//'',
     js ''*/'',
     js ''module.exports = {'',
     js ''  data: {'',
     js ''    name: "//name//",'',
     js ''  },'',
     js ''  info: {'',
     js ''    source: "https://github.com/RatWasHere/bmods/tree/master/Actions",'',
     js ''    creator: "//author//",'',
     js ''    description: "//description//",'',
     js ''    donate: "//donation//",'',
     js ''  },'',
     js ''  category: "//category//",'',
     js ''  UI: ['',
     js ''    // This is the UI for the Action'',
     js ''    {'',
     js ''      element: "input",'',
     js ''      storeAs: "myinput",'',
     js ''      name: "Input",'',
     js ''    },'',
     js ''    "-",'',
     js ''  ],'',
     js '''',
     js ''  async run(values, interaction, client, bridge) {'',
     js ''    // This is where your code will go'',
     js ''    // Documentation: https://github.com/RatWasHere/bmods/blob/master/MODS.md'',
     js ''    console.log("Hello //name//!");'',
     js ''  },'',
     js ''};'']\<close>

definition Action_template :: jsstring where
  "Action_template = join_lines Action_template_lines"

definition Action_rendered_lines :: "jsstring list" where
  \<open>Action_rendered_lines =
    [js ''/*'',
     js ''    My Cool Mod mod by Alex'',
     js ''    Licensed under MIT License'',
     js '''',
     js ''    desc'',
     js ''*/'',
     js ''module.exports = {'',
     js ''  data: {'',
     js ''    name: "My Cool Mod",'',
     js ''  },'',
     js ''  info: {'',
     js ''    source: "https://github.com/RatWasHere/bmods/tree/master/Actions",'',
     js ''    creator: "Alex",'',
     js ''    description: "desc",'',
     js ''    donate: "",'',
     js ''  },'',
     js ''  category: "Message",'',
     js ''  UI: ['',
     js ''    // This is the UI for the Action'',
     js ''    {'',
     js ''      element: "input",'',
     js ''      storeAs: "myinput",'',
     js ''      name: "Input",'',
     js ''    },'',
     js ''    "-",'',
     js ''  ],'',
     js '''',
     js ''  async run(values, interaction, client, bridge) {'',
     js ''    // This is where your code will go'',
     js ''    // Documentation: https://github.com/RatWasHere/bmods/blob/master/MODS.md'',
     js ''    console.log("Hello My Cool Mod!");'',
     js ''  },'',
     js ''};'']\<close>

definition Action_rendered :: jsstring where
  "Action_rendered = join_lines Action_rendered_lines"

subsection \<open>Notions used to state the properties\<close>

text \<open>
  \<open>prompts_done rt w config modInfo w'\<close>: the run from \<open>w\<close> has loaded \<open>config\<close>, both
  prompt passes have returned, \<open>modInfo\<close> is the merged answers and \<open>w'\<close> the world at that
  moment (line 580). \<open>reaches_detection\<close>: moreover \<open>saveConfig\<close> has returned, and \<open>w'\<close> is
  the world in which the installation is looked for (line 592).
  \<open>is_ancestor_or_self p q\<close>: the path \<open>p\<close> is \<open>q\<close> or a directory above it.
\<close>

definition prompts_done :: "runtime \<Rightarrow> world \<Rightarrow> jsonval \<Rightarrow> answers \<Rightarrow> world \<Rightarrow> bool" where
  "prompts_done rt w config modInfo w' \<longleftrightarrow>
     (\<exists>w1 w2 initialAnswers w3 detailedAnswers.
        ensureConfigFolderExists rt (say Blank w) = (Inr (), w1) \<and>
        loadConfig rt w1 = (Inr config, w2) \<and>
        promptForInitialInfo w2 = (Inr initialAnswers, w3) \<and>
        promptForDetailedInfo initialAnswers config w3 = (Inr detailedAnswers, w') \<and>
        modInfo = initialAnswers ++ detailedAnswers)"

definition reaches_detection :: "runtime \<Rightarrow> world \<Rightarrow> jsonval \<Rightarrow> answers \<Rightarrow> world \<Rightarrow> bool" where
  "reaches_detection rt w config modInfo w' \<longleftrightarrow>
     (\<exists>w4. prompts_done rt w config modInfo w4 \<and>
           saveConfig rt (updatedConfig config modInfo) w4 = (Inr (), w'))"

definition is_ancestor_or_self :: "path \<Rightarrow> path \<Rightarrow> bool" where
  "is_ancestor_or_self p q \<longleftrightarrow> take (length p) q = p"

text \<open>
  \<open>only_files_added f f'\<close>: from \<open>f\<close> to \<open>f'\<close> no directory appeared or disappeared and
  every file is still a file. \<open>new_dirs_within f f' p\<close>: every directory of \<open>f'\<close> that \<open>f\<close>
  does not have is \<open>p\<close> or above it. \<open>savedPathUsable m f\<close>: the configuration \<open>m\<close> has a
  \<open>bmdPath\<close> that is set and exists in \<open>f\<close>.
\<close>

definition only_files_added :: "filesystem \<Rightarrow> filesystem \<Rightarrow> bool" where
  "only_files_added f f' \<longleftrightarrow>
     (\<forall>q. (f' q = Some Dir) = (f q = Some Dir)) \<and>
     (\<forall>q c. f q = Some (File c) \<longrightarrow> (\<exists>c'. f' q = Some (File c')))"

definition new_dirs_within :: "filesystem \<Rightarrow> filesystem \<Rightarrow> path \<Rightarrow> bool" where
  "new_dirs_within f f' p \<longleftrightarrow>
     (\<forall>q. f' q = Some Dir \<and> f q \<noteq> Some Dir \<longrightarrow> is_ancestor_or_self q p)"

definition savedPathUsable :: "config \<Rightarrow> filesystem \<Rightarrow> bool" where
  "savedPathUsable m f \<longleftrightarrow> truthy (m ''bmdPath'') \<and> existsSync f (resolve (the (m ''bmdPath'')))"

text \<open>
  \<open>creatable f p\<close>: no file stands at \<open>p\<close> or at a directory above it, which is when
  \<^verbatim>\<open>mkdirSync\<close> with \<^verbatim>\<open>recursive: true\<close> returns.
\<close>

definition is_file :: "node option \<Rightarrow> bool" where
  "is_file x = (case x of Some (File t) \<Rightarrow> True | _ \<Rightarrow> False)"

definition creatable :: "filesystem \<Rightarrow> path \<Rightarrow> bool" where
  "creatable f p \<longleftrightarrow> list_all (\<lambda>n. \<not> is_file (lookup f (take n p))) [0..<Suc (length p)]"

text \<open>
  \<open>fill_markers kvs s\<close> is the text \<open>s\<close> with every marker of a key of \<open>kvs\<close> replaced by the
  key's value, read once from the left.
\<close>

fun marker_at :: "(jsstring \<times> jsstring) list \<Rightarrow> jsstring \<Rightarrow> (jsstring \<times> jsstring) option" where
  "marker_at [] s = None"
| "marker_at ((k, v) # kvs) s =
     (case match_prefix (marker k) s of
        Some rest \<Rightarrow> Some (v, rest)
      | None \<Rightarrow> marker_at kvs s)"

function fill_markers :: "(jsstring \<times> jsstring) list \<Rightarrow> jsstring \<Rightarrow> jsstring" where
  "fill_markers kvs [] = []"
| "fill_markers kvs (c # cs) =
     (case marker_at kvs (c # cs) of
        Some (v, rest) \<Rightarrow> v @ fill_markers kvs rest
      | None \<Rightarrow> c # fill_markers kvs cs)"
  by pat_completeness auto

lemma match_prefix_length: "match_prefix p s = Some rest \<Longrightarrow> length rest + length p = length s"
  by (induction p s rule: match_prefix.induct) (auto split: if_splits)

lemma marker_at_length: "marker_at kvs s = Some (v, rest) \<Longrightarrow> length rest < length s"
  by (induction kvs s rule: marker_at.induct)
     (auto split: option.splits dest!: match_prefix_length simp: marker_def js_def)

termination fill_markers
  by (relation "measure (\<lambda>(kvs, s). length s)") (auto dest: marker_at_length)

text \<open>
  An entry of a replacement map is plain when its placeholder has no regular-expression syntax
  and no line break and its value has no dollar sign; \<open>render_line\<close> applies the replacements
  of a map to one line.
\<close>

definition plain_entry :: "jsstring \<times> jsstring option \<Rightarrow> bool" where
  "plain_entry kv \<longleftrightarrow>
     \<not> list_ex regex_special (fst kv) \<and> 10 \<notin> set (fst kv) \<and> 36 \<notin> set (orElse (snd kv) [])"

definition render_line :: "(jsstring \<times> jsstring option) list \<Rightarrow> jsstring \<Rightarrow> jsstring" where
  "render_line kvs l =
     foldl (\<lambda>acc kv. replace_global (marker (fst kv)) (orElse (snd kv) []) [] [] acc) l kvs"

subsection \<open>Sample inputs\<close>

text \<open>
  Concrete inputs for the instances below: the answers and the operator of the mod
  "My Cool Mod"; a runtime whose \<^verbatim>\<open>JSON\<close> functions are stand-ins that read two texts and
  write the three known keys; file systems without an installation (\<open>bare\<close>), with one at a
  known location (\<open>installed\<close>), with one somewhere else (\<open>custom\<close>), with a config file that
  does not parse (\<open>garbled\<close>) and with the templates of the folder-based mods
  (\<open>folders\<close>).
\<close>

definition coolMod :: answers where
  "coolMod =
     [''modName'' \<mapsto> js ''My Cool Mod'', ''modType'' \<mapsto> js ''Action'',
      ''modCategory'' \<mapsto> js ''Message'', ''modDescription'' \<mapsto> js ''desc'',
      ''modAuthor'' \<mapsto> js ''Alex'', ''modDonation'' \<mapsto> []]"

definition coolEntries :: "(jsstring \<times> jsstring option) list" where
  "coolEntries =
     [(js ''name'', Some (js ''My Cool Mod'')),
      (js ''author'', Some (js ''Alex'')),
      (js ''description'', Some (js ''desc'')),
      (js ''category'', Some (js ''Message'')),
      (js ''donation'', Some [])]"

definition parse0 :: "jsstring \<Rightarrow> jsonval option" where
  "parse0 t = (if t = js ''{}'' then Some (JObject Map.empty)
               else if t = js ''null'' then Some JNull else None)"

definition stringify0 :: "config \<Rightarrow> jsstring" where
  "stringify0 c =
     concat (map (\<lambda>k. case c k of None \<Rightarrow> [] | Some v \<Rightarrow> js k @ js ''='' @ v @ js '';'')
       [''bmdPath'', ''author'', ''donation''])"

definition rt0 :: runtime where
  "rt0 = \<lparr>JSON_parse = parse0, JSON_stringify = stringify0,
          configFolder = [js ''C:'', js ''cfg''], dirname = [js ''C:'', js ''bin'']\<rparr>"

definition coolKeys :: "response list" where
  "coolKeys = [Typed (js ''My Cool Mod''), Chosen 0, Typed [], Typed (js ''desc''),
               Typed (js ''Alex''), Typed []]"

definition bare :: world where
  "bare = \<lparr>fs = Map.empty, console = [], keys = coolKeys\<rparr>"

definition cfgDirs :: filesystem where
  "cfgDirs = [[js ''C:''] \<mapsto> Dir, [js ''C:'', js ''cfg''] \<mapsto> Dir]"

definition coolInitial :: answers where
  "coolInitial = [''modName'' \<mapsto> js ''My Cool Mod'', ''modType'' \<mapsto> js ''Action'']"

definition coolDetailed :: answers where
  "coolDetailed = [''modCategory'' \<mapsto> js ''Message'', ''modDescription'' \<mapsto> js ''desc'',
      ''modAuthor'' \<mapsto> js ''Alex'', ''modDonation'' \<mapsto> []]"

definition installPath :: path where
  "installPath = [js ''C:'', js ''Program Files'', js ''Steam'', js ''steamapps'', js ''common'',
       js ''Bot Maker For Discord'']"

definition installedFs :: filesystem where
  "installedFs =
     [installPath @ [js ''AppData'', js ''Actions''] \<mapsto> Dir,
      [js ''C:'', js ''bin'', js ''templates'', js ''Action.js''] \<mapsto> File Action_template]"

definition installed :: world where
  "installed = \<lparr>fs = installedFs, console = [], keys = []\<rparr>"

definition garbled :: world where
  "garbled = \<lparr>fs = cfgDirs(configFile rt0 \<mapsto> File (js ''{oops'')), console = [], keys = []\<rparr>"

definition bareSaved :: world where
  "bareSaved =
     \<lparr>fs = cfgDirs(configFile rt0 \<mapsto>
             File (stringify0 (updatedConfig (JObject Map.empty) (coolInitial ++ coolDetailed)))),
      console = [Blank], keys = []\<rparr>"

definition bangMod :: answers where
  "bangMod = [''modName'' \<mapsto> js ''!!!'', ''modType'' \<mapsto> js ''Theme'',
      ''modDescription'' \<mapsto> js ''desc'', ''modAuthor'' \<mapsto> js ''Alex'', ''modDonation'' \<mapsto> []]"

definition folders :: world where
  \<open>folders =
     \<lparr>fs = [[js ''C:'', js ''bin'', js ''templates'', js ''Automation'', js ''data.json'']
                \<mapsto> File (js ''{ "name": "//name//" }''),
             [js ''C:'', js ''bin'', js ''templates'', js ''Automation'', js ''main.js'']
                \<mapsto> File (js ''// //name// by //author//''),
             [js ''C:'', js ''bin'', js ''templates'', js ''Automation'', js ''startup.js'']
                \<mapsto> File (js ''// //description//''),
             [js ''C:'', js ''bin'', js ''templates'', js ''Automation'', js ''startup_info.json'']
                \<mapsto> File (js ''{ "donate": "//donation//" }''),
             [js ''C:'', js ''bin'', js ''templates'', js ''Theme'', js ''data.json'']
                \<mapsto> File (js ''{ name: //name//, author: //author// }''),
             [js ''C:'', js ''bin'', js ''templates'', js ''Theme'', js ''theme.css'']
                \<mapsto> File (js ''body { color: red }''),
             [js ''C:'', js ''bin'', js ''templates'', js ''Translation'', js ''data.json'']
                \<mapsto> File (js ''{ "name": "//name//" }''),
             [js ''C:'', js ''bin'', js ''templates'', js ''Translation'', js ''strings.json'']
                \<mapsto> File (js ''{ "hello": "//name//" }'')],
      console = [], keys = []\<rparr>\<close>

definition customFs :: filesystem where
  "customFs = cfgDirs([js ''D:''] \<mapsto> Dir, [js ''D:'', js ''BMD''] \<mapsto> Dir,
                      [js ''D:'', js ''BMD'', js ''resources''] \<mapsto> Dir)"

definition custom :: world where
  "custom = \<lparr>fs = customFs, console = [], keys = coolKeys @ [Typed (js ''D:/BMD'')]\<rparr>"

definition customAtDetection :: world where
  "customAtDetection =
     \<lparr>fs = customFs(configFile rt0 \<mapsto>
             File (stringify0 (updatedConfig (JObject Map.empty) (coolInitial ++ coolDetailed)))),
      console = [Blank], keys = [Typed (js ''D:/BMD'')]\<rparr>"

definition savedConfig :: config where
  "savedConfig = [''bmdPath'' \<mapsto> js ''D:/BMD'']"

section \<open>Properties\<close>

subsection \<open>Camel-cased file names and folder slugs\<close>

lemma strip_runs_filter: "strip_runs p s = filter (\<lambda>c. \<not> p c) s"
proof (induction p s rule: strip_runs.induct)
  case (1 p)
  then show ?case by simp
next
  case (2 p c cs)
  have "filter (\<lambda>c. \<not> p c) (dropWhile p cs) = filter (\<lambda>c. \<not> p c) cs"
    by (induction cs) auto
  with 2 show ?case by simp
qed
















lemma split_runs_sep [simp]:
  "sep c \<Longrightarrow> split_runs sep cur (c # cs) = cur # split_runs sep [] (dropWhile sep cs)"
  by simp

lemma split_runs_other [simp]:
  "\<not> sep c \<Longrightarrow> split_runs sep cur (c # cs) = split_runs sep (cur @ [c]) cs"
  by simp

declare split_runs.simps(2) [simp del]














lemma ws_range: "is_ws c \<Longrightarrow> c < 45 \<or> 160 \<le> c"
  unfolding is_ws_def by (elim disjE) simp_all

text \<open>
  Claim C5. For every input string, every character of the slug that \<open>sanitizeFolderName\<close>
  returns is alphanumeric, an underscore (95) or a hyphen (45), and none is whitespace.
\<close>

theorem sanitizeFolderName_charset:
  "\<forall>c\<in>set (sanitizeFolderName name). (is_alnum c \<or> c = 95 \<or> c = 45) \<and> \<not> is_ws c"
proof
  fix c assume "c \<in> set (sanitizeFolderName name)"
  then have "is_word c \<or> c = 45"
    by (simp add: sanitizeFolderName_def strip_chars_def)
  moreover have "is_word c \<Longrightarrow> is_alnum c \<or> c = 95"
    by (auto simp: is_word_def is_alnum_def)
  moreover have "is_word c \<or> c = 45 \<Longrightarrow> \<not> is_ws c"
    using ws_range [of c] unfolding is_word_def by linarith
  ultimately show "(is_alnum c \<or> c = 95 \<or> c = 45) \<and> \<not> is_ws c" by blast
qed

lemmas str_defs = js_def is_ws_def is_word_def is_alnum_def is_upper_letter_def is_lower_letter_def
  lower_cu_def upper_cu_def toLowerCase_def toUpperCase_def trim_def strip_chars_def
  is_camel_sep_def camelWord_def camelWords_def toCamelCase_def sanitizeFolderName_def
  strip_runs_filter is_lowercase_def is_uppercase_def enumerate_eq_zip




text \<open>Claim C5, witness: the slug of "Weird!! Name" is "WeirdName".\<close>

theorem sanitizeFolderName_charset_witness:
  "list_all (\<lambda>c. (is_alnum c \<or> c = 95 \<or> c = 45) \<and> \<not> is_ws c)
     (sanitizeFolderName (js ''Weird!! Name'')) \<and>
   sanitizeFolderName (js ''Weird!! Name'') = js ''WeirdName''"
proof -
  have "sanitizeFolderName (js ''Weird!! Name'') = js ''WeirdName''"
    by (simp add: str_defs)
  with sanitizeFolderName_charset [of "js ''Weird!! Name''"] show ?thesis
    by (simp add: list_all_iff)
qed

subsection \<open>What a run changes in the file system\<close>

lemmas path_defs = path_join_def apply_segment_def is_path_sep_def resolve_def

lemma js_Nil [simp]: "js [] = []"
  by (simp add: js_def)

lemma configFile_eq: "configFile rt = configFolder rt @ [js ''config.json'']"
  by (simp add: configFile_def path_defs js_def)

lemma mkdirs_frame:
  "mkdirs f base p = Inr f' \<Longrightarrow> \<forall>n. q \<noteq> base @ take n p \<Longrightarrow> f' q = f q"
proof (induction p arbitrary: f base)
  case Nil
  then show ?case by simp
next
  case (Cons s ss)
  have ne: "q \<noteq> base @ [s]"
    using Cons.prems(2) [THEN spec, of 1] by simp
  have rest: "\<forall>n. q \<noteq> (base @ [s]) @ take n ss"
  proof
    fix n show "q \<noteq> (base @ [s]) @ take n ss"
      using Cons.prems(2) [THEN spec, of "Suc n"] by simp
  qed
  show ?case
  proof (cases "lookup f (base @ [s])")
    case None
    with Cons.prems(1) have "mkdirs (f(base @ [s] \<mapsto> Dir)) (base @ [s]) ss = Inr f'" by simp
    from Cons.IH [OF this rest] ne show ?thesis by simp
  next
    case (Some nd)
    show ?thesis
    proof (cases nd)
      case (File t)
      with Some Cons.prems(1) show ?thesis by simp
    next
      case Dir
      with Some Cons.prems(1) have "mkdirs f (base @ [s]) ss = Inr f'" by simp
      from Cons.IH [OF this rest] show ?thesis .
    qed
  qed
qed

lemma mkdirs_changes:
  "mkdirs f base p = Inr f' \<Longrightarrow> f' q = f q \<or> f' q = Some Dir"
proof (induction p arbitrary: f base)
  case Nil
  then show ?case by simp
next
  case (Cons s ss)
  show ?case
  proof (cases "lookup f (base @ [s])")
    case None
    with Cons.prems have "mkdirs (f(base @ [s] \<mapsto> Dir)) (base @ [s]) ss = Inr f'" by simp
    from Cons.IH [OF this] show ?thesis by (auto split: if_splits)
  next
    case (Some nd)
    show ?thesis
    proof (cases nd)
      case (File t)
      with Some Cons.prems show ?thesis by simp
    next
      case Dir
      with Some Cons.prems have "mkdirs f (base @ [s]) ss = Inr f'" by simp
      from Cons.IH [OF this] show ?thesis .
    qed
  qed
qed

lemma mkdirSync_frame:
  "mkdirSync f p = Inr f' \<Longrightarrow> \<not> is_ancestor_or_self q p \<Longrightarrow> f' q = f q"
proof -
  assume a: "mkdirSync f p = Inr f'" and b: "\<not> is_ancestor_or_self q p"
  have "\<forall>n. q \<noteq> [] @ take n p"
  proof
    fix n show "q \<noteq> [] @ take n p"
    proof
      assume "q = [] @ take n p"
      then have "take (length q) p = q" by (simp add: min_def take_all)
      with b show False by (simp add: is_ancestor_or_self_def)
    qed
  qed
  with a show ?thesis unfolding mkdirSync_def by (rule mkdirs_frame)
qed

lemma ancestor_trans:
  "is_ancestor_or_self q p \<Longrightarrow> is_ancestor_or_self q (p @ r)"
  unfolding is_ancestor_or_self_def
  by (metis append_eq_conv_conj append_take_drop_id take_append take_all_iff length_take min.cobounded1 append.assoc)

lemma fsStep_mkdir_frame:
  "fsStep (\<lambda>f. mkdirSync f p) w = (r, w') \<Longrightarrow>
   console w' = console w \<and> keys w' = keys w \<and>
   (\<forall>q. \<not> is_ancestor_or_self q p \<longrightarrow> fs w' q = fs w q)"
  by (auto simp: fsStep_def split: sum.splits dest: mkdirSync_frame)

lemma ensure_frame:
  "ensureConfigFolderExists rt w = (r, w') \<Longrightarrow>
   console w' = console w \<and> keys w' = keys w \<and>
   (\<forall>q. \<not> is_ancestor_or_self q (configFolder rt) \<longrightarrow> fs w' q = fs w q)"
  unfolding ensureConfigFolderExists_def
  by (cases "existsSync (fs w) (configFolder rt)") (auto dest: fsStep_mkdir_frame)

lemma writeFileSync_frame:
  "writeFileSync f p t = Inr f' \<Longrightarrow> f' = f(p \<mapsto> File t)"
  by (auto simp: writeFileSync_def split: if_splits)

lemma saveConfig_frame:
  assumes "saveConfig rt c w = (r, w')"
  shows "keys w' = keys w \<and>
         (\<forall>q. \<not> is_ancestor_or_self q (configFile rt) \<longrightarrow> fs w' q = fs w q)"
proof (cases "ensureConfigFolderExists rt w")
  case (Pair r1 w1)
  note e = ensure_frame [OF Pair]
  have anc: "\<not> is_ancestor_or_self q (configFolder rt)" if "\<not> is_ancestor_or_self q (configFile rt)" for q
    using that ancestor_trans [of q "configFolder rt" "[js ''config.json'']"]
    by (auto simp: configFile_eq)
  have self: "\<not> is_ancestor_or_self q (configFile rt) \<Longrightarrow> q \<noteq> configFile rt" for q
    by (auto simp: is_ancestor_or_self_def)
  show ?thesis
  proof (cases r1)
    case (Inl e1)
    with assms Pair e anc show ?thesis by (auto simp: saveConfig_def)
  next
    case (Inr u)
    show ?thesis
    proof (cases "writeFileSync (fs w1) (configFile rt) (JSON_stringify rt c)")
      case (Inl e2)
      with assms Pair Inr e anc show ?thesis by (auto simp: saveConfig_def say_def)
    next
      case wr: (Inr f2)
      from writeFileSync_frame [OF wr] wr assms Pair Inr e anc self show ?thesis
        by (auto simp: saveConfig_def)
    qed
  qed
qed

lemma saveConfig_writable:
  assumes "lookup (fs w) (configFolder rt) = Some Dir"
      and "lookup (fs w) (configFile rt) \<noteq> Some Dir"
  shows "saveConfig rt c w = (Inr (), w\<lparr>fs := (fs w)(configFile rt \<mapsto> File (JSON_stringify rt c))\<rparr>)"
  using assms
  by (simp add: saveConfig_def ensureConfigFolderExists_def existsSync_def writeFileSync_def
      configFile_eq)

lemma loadConfig_frame:
  "loadConfig rt w = (r, w') \<Longrightarrow> fs w' = fs w \<and> keys w' = keys w \<and> (\<exists>v. r = Inr v)"
  by (auto simp: loadConfig_def say_def split: if_splits sum.splits option.splits)

lemma prompt_frame:
  "prompt qs w = (r, w') \<Longrightarrow> fs w' = fs w \<and> console w' = console w"
  by (auto simp: prompt_def split: prod.splits option.splits)

lemma promptForInitialInfo_frame:
  "promptForInitialInfo w = (r, w') \<Longrightarrow> fs w' = fs w \<and> console w' = console w"
  unfolding promptForInitialInfo_def by (rule prompt_frame)

lemma promptForDetailedInfo_frame:
  "promptForDetailedInfo a c w = (r, w') \<Longrightarrow> fs w' = fs w \<and> console w' = console w"
  unfolding promptForDetailedInfo_def Let_def
  by (auto split: sum.splits option.splits if_splits dest: prompt_frame)

lemma prompts_done_main_try:
  "prompts_done rt w config modInfo w4 \<Longrightarrow>
   main_try rt w =
     andThen (saveConfig rt (updatedConfig config modInfo) w4) (\<lambda>_ w5. main_generate rt modInfo w5)"
  by (auto simp: prompts_done_def main_try_def main_after_load_def Let_def)

lemma reaches_detection_main_try:
  "reaches_detection rt w config modInfo w5 \<Longrightarrow> main_try rt w = main_generate rt modInfo w5"
  by (auto simp: reaches_detection_def dest!: prompts_done_main_try)

lemma prompts_done_frame:
  assumes "prompts_done rt w config modInfo w4"
  shows "\<forall>q. \<not> is_ancestor_or_self q (configFile rt) \<longrightarrow> fs w4 q = fs w q"
proof -
  from assms obtain w1 w2 ia w3 da where
      s1: "ensureConfigFolderExists rt (say Blank w) = (Inr (), w1)" and
      s2: "loadConfig rt w1 = (Inr config, w2)" and
      s3: "promptForInitialInfo w2 = (Inr ia, w3)" and
      s4: "promptForDetailedInfo ia config w3 = (Inr da, w4)"
    unfolding prompts_done_def by blast
  have "fs w4 = fs w1"
    using loadConfig_frame [OF s2] promptForInitialInfo_frame [OF s3]
      promptForDetailedInfo_frame [OF s4] by simp
  moreover have "\<not> is_ancestor_or_self q (configFolder rt)" if "\<not> is_ancestor_or_self q (configFile rt)" for q
    using that ancestor_trans [of q "configFolder rt" "[js ''config.json'']"]
    by (auto simp: configFile_eq)
  ultimately show ?thesis
    using ensure_frame [OF s1] by (simp add: say_def)
qed

lemma reaches_detection_frame:
  assumes "reaches_detection rt w config modInfo w5"
  shows "\<forall>q. \<not> is_ancestor_or_self q (configFile rt) \<longrightarrow> fs w5 q = fs w q"
proof -
  from assms obtain w4 where a: "prompts_done rt w config modInfo w4"
      and b: "saveConfig rt (updatedConfig config modInfo) w4 = (Inr (), w5)"
    unfolding reaches_detection_def by blast
  from prompts_done_frame [OF a] saveConfig_frame [OF b] show ?thesis by simp
qed

subsection \<open>The answers of the two prompt passes\<close>

lemma prompt_loop_dom:
  "prompt_loop qs acc rs = (Some a, rs') \<Longrightarrow> dom a = dom acc \<union> qname ` set qs"
proof (induction qs arbitrary: acc rs)
  case Nil
  then show ?case by simp
next
  case (Cons q qs)
  obtain r rs1 where a: "ask q rs = (r, rs1)" by (cases "ask q rs")
  with Cons.prems obtain v where v: "r = Some v" by (cases r) auto
  with a Cons.prems have "prompt_loop qs (acc(qname q \<mapsto> v)) rs1 = (Some a, rs')" by simp
  from Cons.IH [OF this] show ?case by auto
qed

lemma prompt_dom:
  assumes "prompt qs w = (Inr a, w')"
  shows "dom a = qname ` set qs"
proof -
  from assms obtain rs' where "prompt_loop qs Map.empty (keys w) = (Some a, rs')"
    by (auto simp: prompt_def split: prod.splits option.splits)
  from prompt_loop_dom [OF this] show ?thesis by simp
qed

lemma picked_choice: "picked q r = Some t \<Longrightarrow> t \<in> set (qchoices q)"
  by (auto simp: picked_def Let_def split: if_splits)

lemma ask_list_choice:
  "qkind q = ListQ \<Longrightarrow> ask q rs = (Some t, rs') \<Longrightarrow> t \<in> set (qchoices q)"
  by (cases rs) (auto split: if_splits dest: picked_choice)

lemma MOD_TYPES_keys:
  "map fst MOD_TYPES = [js ''Action'', js ''Event'', js ''Automation'', js ''Theme'', js ''Translation'']"
  by (simp add: MOD_TYPES_def)

lemma promptForInitialInfo_type:
  assumes "promptForInitialInfo w = (Inr ia, w1)"
  shows "\<exists>t. ia ''modType'' = Some t \<and> t \<in> set (map fst MOD_TYPES) \<and> ia ''modCategory'' = None"
proof -
  let ?q1 = "\<lparr>qname = ''modName'', qkind = InputQ, qdefault = Some (js ''My Mod''),
         qvalidate = required, qchoices = []\<rparr>"
  let ?q2 = "\<lparr>qname = ''modType'', qkind = ListQ, qdefault = None,
         qvalidate = accept_all, qchoices = map fst MOD_TYPES\<rparr>"
  from assms have p: "prompt [?q1, ?q2] w = (Inr ia, w1)"
    by (simp add: promptForInitialInfo_def)
  then obtain rs' where l: "prompt_loop [?q1, ?q2] Map.empty (keys w) = (Some ia, rs')"
    by (auto simp: prompt_def split: prod.splits option.splits)
  obtain r1 rs1 where a1: "ask ?q1 (keys w) = (r1, rs1)" by (cases "ask ?q1 (keys w)")
  with l obtain n where n: "r1 = Some n" by (cases r1) auto
  obtain r2 rs2 where a2: "ask ?q2 rs1 = (r2, rs2)" by (cases "ask ?q2 rs1")
  with l a1 n obtain t where t: "r2 = Some t" by (cases r2) auto
  from l a1 n a2 t have ia: "ia = [''modName'' \<mapsto> n, ''modType'' \<mapsto> t]" by simp
  from ask_list_choice [of ?q2 rs1 t rs2] a2 t have "t \<in> set (map fst MOD_TYPES)" by simp
  with ia show ?thesis by simp
qed

lemma requiresCategory_Action:
  "map_of MOD_TYPES t = Some d \<Longrightarrow> requiresCategory d = (t = js ''Action'')"
  by (auto simp: MOD_TYPES_def Action_def Event_def Automation_def Theme_def Translation_def js_def
      split: if_splits)

lemma prompt_key:
  "prompt qs w = (Inr a, w') \<Longrightarrow> (a k \<noteq> None) = (k \<in> qname ` set qs)"
  using prompt_dom [of qs w a w'] by (auto simp: domIff)

lemma promptForDetailedInfo_category:
  assumes "promptForDetailedInfo ia config w = (Inr da, w')" and "ia ''modType'' = Some t"
  shows "\<exists>d. map_of MOD_TYPES t = Some d \<and> ((da ''modCategory'' \<noteq> None) = requiresCategory d) \<and>
             da ''modType'' = None \<and> da ''modAuthor'' \<noteq> None \<and> da ''modDonation'' \<noteq> None"
proof -
  from assms obtain au dn d where
      g: "getProp config ''author'' = Inr au" "getProp config ''donation'' = Inr dn" and
      d: "map_of MOD_TYPES t = Some d"
    by (auto simp: promptForDetailedInfo_def Let_def split: sum.splits option.splits)
  let ?qs = "[\<lparr>qname = ''modDescription'', qkind = InputQ,
          qdefault = Some (js ''Created with create-bmd''), qvalidate = accept_all, qchoices = []\<rparr>,
         \<lparr>qname = ''modAuthor'', qkind = InputQ,
          qdefault = Some (orElse au (js ''Your Name'')), qvalidate = required, qchoices = []\<rparr>,
         \<lparr>qname = ''modDonation'', qkind = InputQ,
          qdefault = Some (orElse dn []), qvalidate = accept_all, qchoices = []\<rparr>]"
  let ?qc = "\<lparr>qname = ''modCategory'', qkind = InputQ,
                      qdefault = defaultCategory d, qvalidate = required,
                      qchoices = []\<rparr>"
  have "(da ''modCategory'' \<noteq> None) = requiresCategory d \<and>
        da ''modType'' = None \<and> da ''modAuthor'' \<noteq> None \<and> da ''modDonation'' \<noteq> None"
  proof (cases "requiresCategory d")
    case True
    with assms g d have p: "prompt (?qc # ?qs) w = (Inr da, w')"
      by (simp add: promptForDetailedInfo_def)
    from prompt_key [OF p, of "''modCategory''"] prompt_key [OF p, of "''modType''"]
      prompt_key [OF p, of "''modAuthor''"] prompt_key [OF p, of "''modDonation''"] True
    show ?thesis by simp
  next
    case False
    with assms g d have p: "prompt ?qs w = (Inr da, w')"
      by (simp add: promptForDetailedInfo_def)
    from prompt_key [OF p, of "''modCategory''"] prompt_key [OF p, of "''modType''"]
      prompt_key [OF p, of "''modAuthor''"] prompt_key [OF p, of "''modDonation''"] False
    show ?thesis by simp
  qed
  with d show ?thesis by blast
qed

text \<open>
  Claim C7. Whenever the two prompt passes both return, the merged answers hold a mod type
  that is one of the five keys of \<open>MOD_TYPES\<close>, and they hold a category exactly when the
  descriptor of that type has \<open>requiresCategory\<close> set, which is the case for Action only.
\<close>

theorem modInfo_invariant:
  assumes "promptForInitialInfo w = (Inr initialAnswers, w1)"
      and "promptForDetailedInfo initialAnswers config w1 = (Inr detailedAnswers, w2)"
  shows "\<exists>t d. (initialAnswers ++ detailedAnswers) ''modType'' = Some t \<and>
           t \<in> {js ''Action'', js ''Event'', js ''Automation'', js ''Theme'', js ''Translation''} \<and>
           map_of MOD_TYPES t = Some d \<and>
           (((initialAnswers ++ detailedAnswers) ''modCategory'' \<noteq> None) = requiresCategory d) \<and>
           (requiresCategory d = (t = js ''Action''))"
proof -
  from promptForInitialInfo_type [OF assms(1)] obtain t where
      t: "initialAnswers ''modType'' = Some t" "t \<in> set (map fst MOD_TYPES)"
         "initialAnswers ''modCategory'' = None"
    by blast
  from promptForDetailedInfo_category [OF assms(2) t(1)] obtain d where
      d: "map_of MOD_TYPES t = Some d"
         "(detailedAnswers ''modCategory'' \<noteq> None) = requiresCategory d"
         "detailedAnswers ''modType'' = None"
    by blast
  have "(initialAnswers ++ detailedAnswers) ''modType'' = Some t"
    using t(1) d(3) by (simp add: map_add_def)
  moreover have "((initialAnswers ++ detailedAnswers) ''modCategory'' \<noteq> None) = requiresCategory d"
    using t(3) d(2) by (auto simp: map_add_def split: option.splits)
  moreover have "t \<in> {js ''Action'', js ''Event'', js ''Automation'', js ''Theme'', js ''Translation''}"
    using t(2) unfolding MOD_TYPES_keys by simp
  ultimately show ?thesis
    using d(1) requiresCategory_Action [OF d(1)]
    by (intro exI [of _ t] exI [of _ d] conjI)
qed

subsection \<open>Loading the configuration\<close>

text \<open>
  Claim C8. \<open>loadConfig\<close> returns the empty object when the config file does not exist, and
  the empty object with one warning on the console when the file's text does not parse. It
  never raises and changes neither the file system nor the operator's input, and a run whose
  config file does not parse goes on to the prompts with the empty configuration.
\<close>

theorem loadConfig_empty_on_failure:
  "(\<not> existsSync (fs w) (configFile rt) \<longrightarrow> loadConfig rt w = (Inr (JObject Map.empty), w)) \<and>
   (\<forall>t. readFileSync (fs w) (configFile rt) = Inr t \<and> JSON_parse rt t = None \<longrightarrow>
        loadConfig rt w = (Inr (JObject Map.empty), say WarnLoadConfig w)) \<and>
   (\<exists>v w'. loadConfig rt w = (Inr v, w') \<and> fs w' = fs w \<and> keys w' = keys w) \<and>
   (\<forall>w1 t. ensureConfigFolderExists rt (say Blank w) = (Inr (), w1) \<and>
        readFileSync (fs w1) (configFile rt) = Inr t \<and> JSON_parse rt t = None \<longrightarrow>
        main_try rt w = main_after_load rt (JObject Map.empty) (say WarnLoadConfig w1))"
proof -
  have a: "\<not> existsSync (fs w) (configFile rt) \<longrightarrow> loadConfig rt w = (Inr (JObject Map.empty), w)"
    by (simp add: loadConfig_def)
  have b: "loadConfig rt x = (Inr (JObject Map.empty), say WarnLoadConfig x)"
    if "readFileSync (fs x) (configFile rt) = Inr t" "JSON_parse rt t = None" for x t
    using that
    by (auto simp: loadConfig_def readFileSync_def existsSync_def split: option.splits node.splits)
  have c: "\<exists>v w'. loadConfig rt w = (Inr v, w') \<and> fs w' = fs w \<and> keys w' = keys w"
    using loadConfig_frame [of rt w] by (cases "loadConfig rt w") auto
  have d: "main_try rt w = main_after_load rt (JObject Map.empty) (say WarnLoadConfig w1)"
    if "ensureConfigFolderExists rt (say Blank w) = (Inr (), w1)"
       "readFileSync (fs w1) (configFile rt) = Inr t" "JSON_parse rt t = None" for w1 t
    using that b [of w1 t] by (simp add: main_try_def)
  from a b c d show ?thesis by blast
qed

subsection \<open>The run up to the detection of the installation\<close>

text \<open>
  Claim C1. When a run gets as far as the detection of the installation (the prompts are
  answered and \<open>saveConfig\<close> has returned) and no path of \<open>COMMON_BMD_PATHS\<close> exists, \<open>main\<close>
  prints the four lines of the error and ends with exit code 0. The file system is then the
  one \<open>saveConfig\<close> left: it differs from the initial one at most at the config file and its
  ancestor directories, so no mod file is written. Every error that \<open>main\<close> catches, other than
  the operator's cancellation, ends the run with exit code 1.
\<close>

theorem main_installation_not_found:
  assumes "reaches_detection rt w config modInfo w5"
      and "first_existing (fs w5) COMMON_BMD_PATHS = None"
  shows "main rt w =
           (0, say (ConfigLocation (configFile rt)) (say InstallHintManual (say InstallHint (say InstallationNotFound w5)))) \<and>
         fs (snd (main rt w)) = fs w5 \<and>
         (\<forall>q. \<not> is_ancestor_or_self q (configFile rt) \<longrightarrow> fs (snd (main rt w)) q = fs w q) \<and>
         (\<forall>x e x'. main_try rt x = (Inl e, x') \<and> e \<noteq> ExitPromptError \<longrightarrow> fst (main rt x) = 1)"
proof -
  have g: "main_generate rt modInfo w5 =
      (Inr (), say (ConfigLocation (configFile rt)) (say InstallHintManual (say InstallHint (say InstallationNotFound w5))))"
    using assms(2) by (simp add: main_generate_def findBMDInstallation_def)
  have m: "main rt w =
      (0, say (ConfigLocation (configFile rt)) (say InstallHintManual (say InstallHint (say InstallationNotFound w5))))"
    using reaches_detection_main_try [OF assms(1)] g by (simp add: main_def)
  have f: "fs (snd (main rt w)) = fs w5"
    using m by (simp add: say_def)
  have "\<forall>x e x'. main_try rt x = (Inl e, x') \<and> e \<noteq> ExitPromptError \<longrightarrow> fst (main rt x) = 1"
    by (simp add: main_def)
  with m f reaches_detection_frame [OF assms(1)] show ?thesis by simp
qed

text \<open>
  Claim C10. When both prompt passes have returned, the answers hold an author and a donation
  link, and \<open>main\<close> calls \<open>saveConfig\<close> on the loaded configuration with these two keys
  overwritten before it looks for the installation. Where the config file can be written (its
  folder is a directory and the file is not one), the file then holds the updated
  configuration, also when the installation is not found and the run ends with exit code 0
  without writing a mod file.
\<close>

theorem config_saved_before_detection:
  assumes "prompts_done rt w config modInfo w4"
  shows "(\<exists>a d. modInfo ''modAuthor'' = Some a \<and> modInfo ''modDonation'' = Some d \<and>
                updatedConfig config modInfo = (spread config)(''author'' \<mapsto> a, ''donation'' \<mapsto> d)) \<and>
         main_try rt w =
           andThen (saveConfig rt (updatedConfig config modInfo) w4)
             (\<lambda>_ w5. main_generate rt modInfo w5) \<and>
         (lookup (fs w4) (configFolder rt) = Some Dir \<and> lookup (fs w4) (configFile rt) \<noteq> Some Dir \<longrightarrow>
            (let w5 = w4\<lparr>fs := (fs w4)(configFile rt \<mapsto>
                          File (JSON_stringify rt (updatedConfig config modInfo)))\<rparr>
             in main_try rt w = main_generate rt modInfo w5 \<and>
                (first_existing (fs w5) COMMON_BMD_PATHS = None \<longrightarrow>
                   fst (main rt w) = 0 \<and>
                   fs (snd (main rt w)) = fs w5 \<and>
                   fs (snd (main rt w)) (configFile rt) =
                     Some (File (JSON_stringify rt (updatedConfig config modInfo))))))"
proof -
  from assms obtain w1 w2 ia w3 da where
      s3: "promptForInitialInfo w2 = (Inr ia, w3)" and
      s4: "promptForDetailedInfo ia config w3 = (Inr da, w4)" and
      mi: "modInfo = ia ++ da"
    unfolding prompts_done_def by blast
  from promptForInitialInfo_type [OF s3] obtain t where t: "ia ''modType'' = Some t" by blast
  from promptForDetailedInfo_category [OF s4 t] obtain a d where
      ad: "da ''modAuthor'' = Some a" "da ''modDonation'' = Some d" by auto
  then have ad': "modInfo ''modAuthor'' = Some a" "modInfo ''modDonation'' = Some d"
    using mi by (simp_all add: map_add_def)
  then have first: "\<exists>a d. modInfo ''modAuthor'' = Some a \<and> modInfo ''modDonation'' = Some d \<and>
                updatedConfig config modInfo = (spread config)(''author'' \<mapsto> a, ''donation'' \<mapsto> d)"
    by (simp add: updatedConfig_def)
  note second = prompts_done_main_try [OF assms]
  let ?c = "updatedConfig config modInfo"
  let ?w5 = "w4\<lparr>fs := (fs w4)(configFile rt \<mapsto> File (JSON_stringify rt ?c))\<rparr>"
  have third: "main_try rt w = main_generate rt modInfo ?w5 \<and>
                (first_existing (fs ?w5) COMMON_BMD_PATHS = None \<longrightarrow>
                   fst (main rt w) = 0 \<and>
                   fs (snd (main rt w)) = fs ?w5 \<and>
                   fs (snd (main rt w)) (configFile rt) = Some (File (JSON_stringify rt ?c)))"
    if wr: "lookup (fs w4) (configFolder rt) = Some Dir" "lookup (fs w4) (configFile rt) \<noteq> Some Dir"
  proof -
    have sv: "saveConfig rt ?c w4 = (Inr (), ?w5)"
      using wr by (rule saveConfig_writable)
    with second have mt: "main_try rt w = main_generate rt modInfo ?w5" by simp
    have "fst (main rt w) = 0 \<and> fs (snd (main rt w)) = fs ?w5"
      if "first_existing (fs ?w5) COMMON_BMD_PATHS = None"
      using that mt by (simp add: main_def main_generate_def findBMDInstallation_def say_def)
    with mt show ?thesis by simp
  qed
  from first second third show ?thesis by (simp add: Let_def)
qed

subsection \<open>Template substitution, line by line\<close>

lemma getSubstitution_plain: "36 \<notin> set tpl \<Longrightarrow> getSubstitution m l r tpl = tpl"
  by (induction m l r tpl rule: getSubstitution.induct) auto

lemma match_prefix_line:
  "10 \<notin> set pat \<Longrightarrow>
   match_prefix pat (x @ 10 # b) = map_option (\<lambda>r. r @ 10 # b) (match_prefix pat x)"
  by (induction pat x rule: match_prefix.induct) auto

lemma match_prefix_newline: "pat \<noteq> [] \<Longrightarrow> 10 \<notin> set pat \<Longrightarrow> match_prefix pat (10 # b) = None"
  by (cases pat) auto

lemma replace_global_seen:
  "36 \<notin> set tpl \<Longrightarrow>
   replace_global pat tpl sk seen s = replace_global pat tpl sk seen' s"
proof (induction s arbitrary: sk seen seen')
  case Nil
  show ?case by simp
next
  case (Cons c s)
  show ?case
  proof (cases sk)
    case Nil
    have "replace_global pat tpl (tl pat) (c # seen) s = replace_global pat tpl (tl pat) (c # seen') s"
         "replace_global pat tpl [] (c # seen) s = replace_global pat tpl [] (c # seen') s"
      using Cons by blast+
    with Nil Cons.prems show ?thesis
      by (auto simp: getSubstitution_plain split: option.splits)
  next
    case (Cons p ps)
    with Cons.IH [OF Cons.prems, of ps "c # seen" "c # seen'"] show ?thesis by simp
  qed
qed

lemma replace_global_line:
  assumes "pat \<noteq> []" and "10 \<notin> set pat" and "36 \<notin> set tpl"
  shows "length sk \<le> length a \<Longrightarrow>
         replace_global pat tpl sk seen (a @ 10 # b) =
           replace_global pat tpl sk seen a @ 10 # replace_global pat tpl [] seen' b"
proof (induction a arbitrary: sk seen)
  case Nil
  then show ?case
    using assms(1,2) replace_global_seen [OF assms(3), of pat "[]" "10 # seen" b seen']
    by (simp add: match_prefix_newline)
next
  case (Cons c a)
  show ?case
  proof (cases sk)
    case (Cons p ps)
    with Cons.prems Cons.IH [of ps "c # seen"] show ?thesis by simp
  next
    case Nil
    show ?thesis
    proof (cases "match_prefix pat (c # a)")
      case None
      then have "match_prefix pat ((c # a) @ 10 # b) = None"
        using match_prefix_line [OF assms(2), of "c # a" b] by simp
      with None Nil assms(1) Cons.IH [of "[]" "c # seen"] show ?thesis by simp
    next
      case (Some r)
      then have m: "match_prefix pat ((c # a) @ 10 # b) = Some (r @ 10 # b)"
        using match_prefix_line [OF assms(2), of "c # a" b] by simp
      from match_prefix_length [OF Some] assms(1) have "length (tl pat) \<le> length a"
        by (cases pat) auto
      from Cons.IH [OF this, of "c # seen"] Some m Nil assms(1,3) show ?thesis
        by (simp add: getSubstitution_plain)
    qed
  qed
qed

lemma replace_global_lines:
  assumes "pat \<noteq> []" and "10 \<notin> set pat" and "36 \<notin> set tpl"
  shows "replace_global pat tpl [] [] (join_lines ls) =
         join_lines (map (replace_global pat tpl [] []) ls)"
proof (induction ls rule: join_lines.induct)
  case 1
  show ?case by simp
next
  case (2 l)
  show ?case by simp
next
  case (3 l m ls)
  have "replace_global pat tpl [] [] (l @ 10 # join_lines (m # ls)) =
        replace_global pat tpl [] [] l @ 10 # replace_global pat tpl [] [] (join_lines (m # ls))"
    by (rule replace_global_line [OF assms]) simp
  with 3 show ?case by simp
qed

lemma substitute_lines:
  "list_all plain_entry kvs \<Longrightarrow>
   substitute kvs (join_lines ls) = Inr (join_lines (map (render_line kvs) ls))"
proof (induction kvs arbitrary: ls)
  case Nil
  then show ?case by (simp add: render_line_def)
next
  case (Cons kv kvs)
  obtain k v where kv: "kv = (k, v)" by (cases kv)
  from Cons.prems have hd: "plain_entry kv" and rest: "list_all plain_entry kvs"
    by simp_all
  from hd kv have p: "\<not> list_ex regex_special k" "10 \<notin> set k" "36 \<notin> set (orElse v [])"
    by (simp_all add: plain_entry_def)
  have m: "marker k \<noteq> []" "10 \<notin> set (marker k)"
    using p(2) by (simp_all add: marker_def js_def)
  have "substitute (kv # kvs) (join_lines ls) =
        substitute kvs (join_lines (map (replace_global (marker k) (orElse v []) [] []) ls))"
    using p(1) kv replace_global_lines [OF m p(3)] by simp
  also have "\<dots> = Inr (join_lines (map (render_line kvs)
                  (map (replace_global (marker k) (orElse v []) [] []) ls)))"
    by (rule Cons.IH [OF rest])
  finally show ?case by (simp add: render_line_def kv comp_def)
qed

lemma marker_at_line:
  "\<forall>kv\<in>set kvs. 10 \<notin> set (fst kv) \<Longrightarrow>
   marker_at kvs (x @ 10 # b) = map_option (\<lambda>(v, r). (v, r @ 10 # b)) (marker_at kvs x)"
proof (induction kvs)
  case Nil
  show ?case by simp
next
  case (Cons kv kvs)
  obtain k v where kv: "kv = (k, v)" by (cases kv)
  with Cons.prems have "10 \<notin> set (marker k)" by (simp add: marker_def js_def)
  from match_prefix_line [OF this, of x b] Cons kv show ?case
    by (cases "match_prefix (marker k) x") simp_all
qed

lemma marker_at_newline:
  "\<forall>kv\<in>set kvs. 10 \<notin> set (fst kv) \<Longrightarrow> marker_at kvs (10 # b) = None"
  by (induction kvs) (auto simp: marker_def js_def)

lemma fill_markers_line:
  "\<forall>kv\<in>set kvs. 10 \<notin> set (fst kv) \<Longrightarrow>
   fill_markers kvs (a @ 10 # b) = fill_markers kvs a @ 10 # fill_markers kvs b"
proof (induction kvs a rule: fill_markers.induct)
  case (1 kvs)
  then show ?case by (simp add: marker_at_newline)
next
  case (2 kvs c cs)
  show ?case
  proof (cases "marker_at kvs (c # cs)")
    case None
    with marker_at_line [OF 2(3), of "c # cs" b]
    have "marker_at kvs (c # cs @ 10 # b) = None" by simp
    with None 2 show ?thesis by simp
  next
    case (Some vr)
    obtain v r where vr: "vr = (v, r)" by (cases vr)
    with Some marker_at_line [OF 2(3), of "c # cs" b]
    have "marker_at kvs (c # cs @ 10 # b) = Some (v, r @ 10 # b)" by simp
    with Some vr 2 show ?thesis by simp
  qed
qed

lemma fill_markers_lines:
  assumes "\<forall>kv\<in>set kvs. 10 \<notin> set (fst kv)"
  shows "fill_markers kvs (join_lines ls) = join_lines (map (fill_markers kvs) ls)"
proof (induction ls rule: join_lines.induct)
  case 1
  show ?case by simp
next
  case (2 l)
  show ?case by simp
next
  case (3 l m ls)
  with fill_markers_line [OF assms, of l "join_lines (m # ls)"] show ?case by simp
qed

lemma cool_plain: "list_all plain_entry coolEntries"
  by code_simp

lemma cool_lines: "map (render_line coolEntries) Action_template_lines = Action_rendered_lines"
  by code_simp

lemma cool_fill: "map (fill_markers [(js ''name'', js ''My Cool Mod''), (js ''author'', js ''Alex''),
     (js ''description'', js ''desc''), (js ''category'', js ''Message''), (js ''donation'', [])]) Action_template_lines =
   Action_rendered_lines"
  by code_simp

lemma cool_substitute: "substitute coolEntries Action_template = Inr Action_rendered"
  unfolding Action_template_def Action_rendered_def
  using substitute_lines [OF cool_plain, of Action_template_lines] cool_lines by simp

subsection \<open>Generating the Action mod\<close>

lemma path_join_Nil [simp]: "path_join p [] = p"
  by (simp add: path_join_def)

lemma path_join_Cons:
  "path_join p (s # ss) = path_join (foldl apply_segment p (split_on is_path_sep [] s)) ss"
  by (simp add: path_join_def)

lemma path_join_empty_part: "path_join p ([] # ss) = path_join p ss"
  by (simp add: path_join_Cons apply_segment_def)

lemma seg_templates: "split_on is_path_sep [] (js ''templates'') = [js ''templates'']"
  by code_simp

lemma seg_Action_js: "split_on is_path_sep [] (js ''Action.js'') = [js ''Action.js'']"
  by code_simp

lemma seg_Actions: "split_on is_path_sep [] (outputPath Action) = [js ''AppData'', js ''Actions'']"
  by code_simp

lemma seg_coolFile:
  "split_on is_path_sep [] (toCamelCase (js ''My Cool Mod'') @ js ''_MOD.js'') = [js ''myCoolMod_MOD.js'']"
  by code_simp

lemma plain_segs:
  "js ''templates'' \<noteq> [] \<and> js ''templates'' \<noteq> [46] \<and> js ''templates'' \<noteq> [46, 46]"
  "js ''Action.js'' \<noteq> [] \<and> js ''Action.js'' \<noteq> [46] \<and> js ''Action.js'' \<noteq> [46, 46]"
  "js ''AppData'' \<noteq> [] \<and> js ''AppData'' \<noteq> [46] \<and> js ''AppData'' \<noteq> [46, 46]"
  "js ''Actions'' \<noteq> [] \<and> js ''Actions'' \<noteq> [46] \<and> js ''Actions'' \<noteq> [46, 46]"
  "js ''myCoolMod_MOD.js'' \<noteq> [] \<and> js ''myCoolMod_MOD.js'' \<noteq> [46] \<and> js ''myCoolMod_MOD.js'' \<noteq> [46, 46]"
  by (simp_all add: js_def)

lemma Action_template_path:
  "path_join d [js ''templates'', js ''Action.js''] = d @ [js ''templates'', js ''Action.js'']"
  by (simp add: path_join_Cons seg_templates seg_Action_js apply_segment_def plain_segs)

lemma coolMod_target:
  "path_join b [outputPath Action, toCamelCase (js ''My Cool Mod'') @ js ''_MOD.js''] =
   b @ [js ''AppData'', js ''Actions'', js ''myCoolMod_MOD.js'']"
  by (simp add: path_join_Cons seg_Actions seg_coolFile apply_segment_def plain_segs)

text \<open>
  Claim C6. For the mod named "My Cool Mod" of type Action, author "Alex", description "desc",
  category "Message" and an empty donation link, and an installation root \<open>bmdPath\<close> whose
  \<open>AppData/Actions\<close> directory exists, \<open>createMod\<close> writes exactly one file,
  \<open>myCoolMod_MOD.js\<close> under \<open>AppData/Actions\<close> of the root. Its content is
  \<open>Action_rendered\<close>, which is the Action template with every marker filled: "My Cool Mod" at
  every name marker, the empty string at every donation marker, and the author, description
  and category at theirs.
\<close>

theorem createActionMod_example:
  assumes "modInfo ''modName'' = Some (js ''My Cool Mod'')"
      and "modInfo ''modType'' = Some (js ''Action'')"
      and "modInfo ''modAuthor'' = Some (js ''Alex'')"
      and "modInfo ''modDescription'' = Some (js ''desc'')"
      and "modInfo ''modCategory'' = Some (js ''Message'')"
      and "modInfo ''modDonation'' = Some []"
      and "lookup (fs w) (dirname rt @ [js ''templates'', js ''Action.js'']) = Some (File Action_template)"
      and "lookup (fs w) (bmdPath @ [js ''AppData'', js ''Actions'']) = Some Dir"
      and "lookup (fs w) (bmdPath @ [js ''AppData'', js ''Actions'', js ''myCoolMod_MOD.js'']) \<noteq> Some Dir"
  shows "createMod rt (modInfo ''modType'') bmdPath modInfo w =
           (Inr (),
            say (ModCreated (js ''Action'') (bmdPath @ [js ''AppData'', js ''Actions'', js ''myCoolMod_MOD.js'']))
              (w\<lparr>fs := (fs w)(bmdPath @ [js ''AppData'', js ''Actions'', js ''myCoolMod_MOD.js'']
                              \<mapsto> File Action_rendered)\<rparr>)) \<and>
         Action_rendered =
           fill_markers [(js ''name'', js ''My Cool Mod''), (js ''author'', js ''Alex''),
             (js ''description'', js ''desc''), (js ''category'', js ''Message''),
             (js ''donation'', [])] Action_template"
proof -
  let ?t = "bmdPath @ [js ''AppData'', js ''Actions'', js ''myCoolMod_MOD.js'']"
  have tpl: "processTemplate (fs w) (dirname rt @ [js ''templates'', js ''Action.js'']) coolEntries
             = Inr Action_rendered"
    using assms(7) cool_substitute by (simp add: processTemplate_def readFileSync_def)
  have bl: "butlast ?t = bmdPath @ [js ''AppData'', js ''Actions'']"
    by (simp add: butlast_append)
  have wr: "writeFileSync (fs w) ?t Action_rendered = Inr ((fs w)(?t \<mapsto> File Action_rendered))"
    using assms(8,9) by (simp add: writeFileSync_def bl)
  have act: "createActionMod rt bmdPath modInfo w =
           (Inr (), say (ModCreated (js ''Action'') ?t) (w\<lparr>fs := (fs w)(?t \<mapsto> File Action_rendered)\<rparr>))"
    using tpl wr assms(1,3,4,5,6)
    by (simp add: createActionMod_def Action_template_path coolMod_target fsStep_def
        coolEntries_def Let_def)
  have run: "createMod rt (modInfo ''modType'') bmdPath modInfo w = createActionMod rt bmdPath modInfo w"
    using assms(2) by (simp add: createMod_def)
  have "\<forall>kv\<in>set [(js ''name'', js ''My Cool Mod''), (js ''author'', js ''Alex''),
             (js ''description'', js ''desc''), (js ''category'', js ''Message''),
             (js ''donation'', [])]. 10 \<notin> set (fst kv)"
    by (simp add: js_def)
  from fill_markers_lines [OF this, of Action_template_lines] cool_fill
  have "Action_rendered =
           fill_markers [(js ''name'', js ''My Cool Mod''), (js ''author'', js ''Alex''),
             (js ''description'', js ''desc''), (js ''category'', js ''Message''),
             (js ''donation'', [])] Action_template"
    by (simp add: Action_template_def Action_rendered_def)
  with run act show ?thesis by simp
qed

subsection \<open>The prompts on the sample input\<close>

lemma bare_s1:
  "ensureConfigFolderExists rt0 (say Blank bare) =
     (Inr (), \<lparr>fs = cfgDirs, console = [Blank], keys = coolKeys\<rparr>)"
  by (simp add: ensureConfigFolderExists_def existsSync_def lookup_def fsStep_def mkdirSync_def
      say_def rt0_def bare_def cfgDirs_def js_def)

lemma bare_s2:
  "loadConfig rt0 \<lparr>fs = cfgDirs, console = [Blank], keys = coolKeys\<rparr> =
     (Inr (JObject Map.empty), \<lparr>fs = cfgDirs, console = [Blank], keys = coolKeys\<rparr>)"
  by (simp add: loadConfig_def existsSync_def lookup_def configFile_eq rt0_def cfgDirs_def js_def)

lemma required_cool: "required (js ''My Cool Mod'')" "required (js ''Message'')" "required (js ''Alex'')"
  by (simp_all add: required_def trim_def is_ws_def js_def)

lemma entered_Typed:
  "entered q (Typed t) = (if t = [] then (case qdefault q of Some d \<Rightarrow> d | None \<Rightarrow> []) else t)"
  by (simp add: entered_def)

lemma js_eq_Nil [simp]: "(js s = []) = (s = [])"
  by (simp add: js_def)

lemma bare_s3:
  "promptForInitialInfo \<lparr>fs = f, console = c, keys = coolKeys\<rparr> =
     (Inr coolInitial, \<lparr>fs = f, console = c, keys = drop 2 coolKeys\<rparr>)"
  by (simp add: promptForInitialInfo_def prompt_def coolKeys_def entered_Typed picked_def
      required_cool MOD_TYPES_def coolInitial_def js_def [of "[]"])

lemma bare_s4:
  "promptForDetailedInfo coolInitial (JObject Map.empty) \<lparr>fs = f, console = c, keys = drop 2 coolKeys\<rparr> =
     (Inr coolDetailed, \<lparr>fs = f, console = c, keys = []\<rparr>)"
  by (simp add: promptForDetailedInfo_def prompt_def coolKeys_def entered_Typed
      required_cool MOD_TYPES_def coolInitial_def coolDetailed_def getProp_def orElse_def truthy_def
      Action_def accept_all_def)

lemma bare_prompts_done:
  "prompts_done rt0 bare (JObject Map.empty) (coolInitial ++ coolDetailed)
     \<lparr>fs = cfgDirs, console = [Blank], keys = []\<rparr>"
  unfolding prompts_done_def using bare_s1 bare_s2 bare_s3 bare_s4 by blast

subsection \<open>Folder-based mods with an empty slug\<close>

lemma sanitize_empty:
  "\<forall>c\<in>set n. is_ws c \<or> \<not> (is_word c \<or> c = 45) \<Longrightarrow> sanitizeFolderName n = []"
  by (auto simp: sanitizeFolderName_def strip_runs_filter strip_chars_def filter_empty_conv)

lemma seg_folders:
  "split_on is_path_sep [] (outputPath Automation) = [js ''Automations'']"
  "split_on is_path_sep [] (outputPath Theme) = [js ''Themes'']"
  "split_on is_path_sep [] (outputPath Translation) = [js ''Translations'']"
  by code_simp+

lemma seg_files:
  "split_on is_path_sep [] (js ''data.json'') = [js ''data.json'']"
  "split_on is_path_sep [] (js ''main.js'') = [js ''main.js'']"
  "split_on is_path_sep [] (js ''startup.js'') = [js ''startup.js'']"
  "split_on is_path_sep [] (js ''startup_info.json'') = [js ''startup_info.json'']"
  "split_on is_path_sep [] (js ''theme.css'') = [js ''theme.css'']"
  "split_on is_path_sep [] (js ''strings.json'') = [js ''strings.json'']"
  by code_simp+

lemma js_plain_seg:
  "s \<noteq> [] \<Longrightarrow> s \<noteq> ''.'' \<Longrightarrow> s \<noteq> ''..'' \<Longrightarrow> apply_segment p (js s) = p @ [js s]"
proof -
  assume a: "s \<noteq> []" "s \<noteq> ''.''" "s \<noteq> ''..''"
  have inj: "inj (of_char :: char \<Rightarrow> nat)" by (rule inj_onI) simp
  have "js s \<noteq> js ''.''" "js s \<noteq> js ''..''"
    using a inj unfolding js_def by (metis inj_map_eq_map)+
  moreover have "js ''.'' = [46]" "js ''..'' = [46, 46]" by (simp_all add: js_def)
  ultimately show ?thesis using a by (simp add: apply_segment_def)
qed

lemma folder_path:
  "path_join b [outputPath Automation, []] = b @ [js ''Automations'']"
  "path_join b [outputPath Theme, []] = b @ [js ''Themes'']"
  "path_join b [outputPath Translation, []] = b @ [js ''Translations'']"
  by (simp_all add: path_join_Cons seg_folders js_plain_seg) (simp_all add: apply_segment_def)

lemma file_path:
  "path_join b [js ''data.json''] = b @ [js ''data.json'']"
  "path_join b [js ''main.js''] = b @ [js ''main.js'']"
  "path_join b [js ''startup.js''] = b @ [js ''startup.js'']"
  "path_join b [js ''startup_info.json''] = b @ [js ''startup_info.json'']"
  "path_join b [js ''theme.css''] = b @ [js ''theme.css'']"
  "path_join b [js ''strings.json''] = b @ [js ''strings.json'']"
  by (simp_all add: path_join_Cons seg_files js_plain_seg)

lemma andThen_Inr:
  assumes "andThen x k = (Inr r, w')"
  obtains a w1 where "x = (Inr a, w1)" and "k a w1 = (Inr r, w')"
proof (cases x)
  case (Pair y w1)
  with assms that show ?thesis by (cases y) auto
qed

lemma fsStep_write:
  assumes "fsStep (\<lambda>f. writeFileSync f p c) w = (Inr (), w')"
  shows "fs w' = (fs w)(p \<mapsto> File c) \<and> console w' = console w \<and> fs w p \<noteq> Some Dir"
  using assms
  by (auto simp: fsStep_def writeFileSync_def lookup_def split: sum.splits if_splits)

lemma fsStep_mkdir:
  assumes "fsStep (\<lambda>f. mkdirSync f p) w = (Inr (), w')"
  shows "console w' = console w \<and>
         (\<forall>q. fs w' q = fs w q \<or> (fs w' q = Some Dir \<and> is_ancestor_or_self q p))"
proof -
  from assms obtain f' where f: "mkdirSync (fs w) p = Inr f'" and w': "w' = w\<lparr>fs := f'\<rparr>"
    by (auto simp: fsStep_def split: sum.splits)
  have "f' q = fs w q \<or> (f' q = Some Dir \<and> is_ancestor_or_self q p)" for q
    using mkdirSync_frame [OF f, of q] mkdirs_changes [of "fs w" "[]" p f' q] f
    by (auto simp: mkdirSync_def)
  with w' show ?thesis by simp
qed

lemma only_files_added_refl: "only_files_added f f"
  by (simp add: only_files_added_def)

lemma only_files_added_write:
  "f p \<noteq> Some Dir \<Longrightarrow> only_files_added f (f(p \<mapsto> File c))"
  by (auto simp: only_files_added_def)

lemma only_files_added_trans:
  "only_files_added f g \<Longrightarrow> only_files_added g h \<Longrightarrow> only_files_added f h"
  unfolding only_files_added_def by metis

lemma only_files_added_keeps:
  "only_files_added f g \<Longrightarrow> f q = Some (File c) \<Longrightarrow> \<exists>c'. g q = Some (File c')"
  unfolding only_files_added_def by blast

lemma writeTemplates_files:
  "writeTemplates rt out reps tpls w = (Inr (), w') \<Longrightarrow>
   only_files_added (fs w) (fs w') \<and> console w' = console w \<and>
   (\<forall>nt\<in>set tpls. \<exists>c. fs w' (path_join out [fst nt]) = Some (File c))"
proof (induction tpls arbitrary: w)
  case Nil
  then show ?case by (simp add: only_files_added_refl)
next
  case (Cons nt tpls)
  obtain n t where nt: "nt = (n, t)" by (cases nt)
  from Cons.prems nt obtain content w1 where
      wr: "fsStep (\<lambda>f. writeFileSync f (path_join out [n]) content) w = (Inr (), w1)" and
      rest: "writeTemplates rt out reps tpls w1 = (Inr (), w')"
    by (auto split: sum.splits elim!: andThen_Inr)
  note a = fsStep_write [OF wr]
  note b = Cons.IH [OF rest]
  have "only_files_added (fs w) (fs w1)"
    using a only_files_added_write [of "fs w" "path_join out [n]" content] by simp
  with b have o: "only_files_added (fs w) (fs w')"
    by (blast intro: only_files_added_trans)
  have "fs w1 (path_join out [n]) = Some (File content)"
    using a by simp
  with b only_files_added_keeps have "\<exists>c. fs w' (path_join out [n]) = Some (File c)"
    by blast
  with a b o nt show ?case by simp
qed

lemma new_dirs_step:
  assumes "\<forall>q. g q = f q \<or> (g q = Some Dir \<and> is_ancestor_or_self q p)"
      and "only_files_added g h"
  shows "new_dirs_within f h p"
  using assms unfolding new_dirs_within_def only_files_added_def by metis

lemma automation_empty_slug:
  assumes "modInfo ''modName'' = Some modName" and "sanitizeFolderName modName = []"
      and "createAutomationMod rt bmdPath modInfo w = (Inr (), w')"
  shows "(\<exists>c. fs w' (bmdPath @ [js ''Automations'', js ''data.json'']) = Some (File c)) \<and>
         (\<exists>c. fs w' (bmdPath @ [js ''Automations'', js ''main.js'']) = Some (File c)) \<and>
         (\<exists>c. fs w' (bmdPath @ [js ''Automations'', js ''startup.js'']) = Some (File c)) \<and>
         (\<exists>c. fs w' (bmdPath @ [js ''Automations'', js ''startup_info.json'']) = Some (File c)) \<and>
         new_dirs_within (fs w) (fs w') (bmdPath @ [js ''Automations'']) \<and>
         console w' = console w @ [ModCreated (js ''Automation'') (bmdPath @ [js ''Automations''])]"
proof -
  let ?out = "bmdPath @ [js ''Automations'']"
  let ?tpls = "[(js ''data.json'', js ''Automation/data.json''),
                 (js ''main.js'', js ''Automation/main.js''),
                 (js ''startup.js'', js ''Automation/startup.js''),
                 (js ''startup_info.json'', js ''Automation/startup_info.json'')]"
  from assms have "andThen (fsStep (\<lambda>f. mkdirSync f ?out) w)
               (\<lambda>_ w1. andThen (writeTemplates rt ?out (folderReplacements modInfo) ?tpls w1)
                  (\<lambda>_ w2. (Inr (), say (ModCreated (js ''Automation'') ?out) w2))) = (Inr (), w')"
    by (simp add: createAutomationMod_def folder_path Let_def del: writeTemplates.simps)
  then obtain w1 w2 where
      mk: "fsStep (\<lambda>f. mkdirSync f ?out) w = (Inr (), w1)" and
      wt: "writeTemplates rt ?out (folderReplacements modInfo) ?tpls w1 = (Inr (), w2)" and
      w': "w' = say (ModCreated (js ''Automation'') ?out) w2"
    by (auto elim!: andThen_Inr)
  note a = fsStep_mkdir [OF mk]
  note b = writeTemplates_files [OF wt]
  have files: "\<forall>nt\<in>set ?tpls. \<exists>c. fs w' (path_join ?out [fst nt]) = Some (File c)"
    using b w' by (simp add: say_def)
  have dirs: "new_dirs_within (fs w) (fs w') ?out"
    using new_dirs_step [of "fs w1" "fs w" ?out "fs w2"] a b w' by (simp add: say_def)
  have con: "console w' = console w @ [ModCreated (js ''Automation'') ?out]"
    using a b w' by (simp add: say_def)
  from files dirs con show ?thesis by (simp add: file_path)
qed

lemma theme_empty_slug:
  assumes "modInfo ''modName'' = Some modName" and "sanitizeFolderName modName = []"
      and "createThemeMod rt bmdPath modInfo w = (Inr (), w')"
  shows "(\<exists>c. fs w' (bmdPath @ [js ''Themes'', js ''data.json'']) = Some (File c)) \<and>
         (\<exists>c. fs w' (bmdPath @ [js ''Themes'', js ''theme.css'']) = Some (File c)) \<and>
         new_dirs_within (fs w) (fs w') (bmdPath @ [js ''Themes'']) \<and>
         console w' = console w @ [ModCreated (js ''Theme'') (bmdPath @ [js ''Themes''])]"
proof -
  let ?out = "bmdPath @ [js ''Themes'']"
  from assms obtain w1 d c w2 w3 where
      mk: "fsStep (\<lambda>f. mkdirSync f ?out) w = (Inr (), w1)" and
      w1: "fsStep (\<lambda>f. writeFileSync f (?out @ [js ''data.json'']) d) w1 = (Inr (), w2)" and
      w2: "fsStep (\<lambda>f. writeFileSync f (?out @ [js ''theme.css'']) c) w2 = (Inr (), w3)" and
      w': "w' = say (ModCreated (js ''Theme'') ?out) w3"
    by (auto simp: createThemeMod_def folder_path file_path Let_def
        split: sum.splits elim!: andThen_Inr)
  note a = fsStep_mkdir [OF mk]
  note b = fsStep_write [OF w1]
  note c = fsStep_write [OF w2]
  have fw: "fs w' = fs w3" and con: "console w' = console w @ [ModCreated (js ''Theme'') ?out]"
    using a b c w' by (simp_all add: say_def)
  have "only_files_added (fs w1) (fs w2)" "only_files_added (fs w2) (fs w3)"
    using b c only_files_added_write [of "fs w1" "?out @ [js ''data.json'']" d]
      only_files_added_write [of "fs w2" "?out @ [js ''theme.css'']" c]
    by simp_all
  then have o: "only_files_added (fs w1) (fs w')"
    unfolding fw by (rule only_files_added_trans)
  have f2: "fs w' (?out @ [js ''theme.css'']) = Some (File c)"
    using c fw by simp
  have "fs w2 (?out @ [js ''data.json'']) = Some (File d)"
    using b by simp
  then have f1: "\<exists>c'. fs w' (?out @ [js ''data.json'']) = Some (File c')"
    using c fw by (auto simp: js_def)
  have dirs: "new_dirs_within (fs w) (fs w') ?out"
    using new_dirs_step [of "fs w1" "fs w" ?out "fs w'"] a o by simp
  from f1 f2 dirs con show ?thesis by simp
qed

lemma translation_empty_slug:
  assumes "modInfo ''modName'' = Some modName" and "sanitizeFolderName modName = []"
      and "createTranslationMod rt bmdPath modInfo w = (Inr (), w')"
  shows "(\<exists>c. fs w' (bmdPath @ [js ''Translations'', js ''data.json'']) = Some (File c)) \<and>
         (\<exists>c. fs w' (bmdPath @ [js ''Translations'', js ''strings.json'']) = Some (File c)) \<and>
         new_dirs_within (fs w) (fs w') (bmdPath @ [js ''Translations'']) \<and>
         console w' = console w @ [ModCreated (js ''Translation'') (bmdPath @ [js ''Translations''])]"
proof -
  let ?out = "bmdPath @ [js ''Translations'']"
  from assms obtain w1 d c w2 w3 where
      mk: "fsStep (\<lambda>f. mkdirSync f ?out) w = (Inr (), w1)" and
      w1: "fsStep (\<lambda>f. writeFileSync f (?out @ [js ''data.json'']) d) w1 = (Inr (), w2)" and
      w2: "fsStep (\<lambda>f. writeFileSync f (?out @ [js ''strings.json'']) c) w2 = (Inr (), w3)" and
      w': "w' = say (ModCreated (js ''Translation'') ?out) w3"
    by (auto simp: createTranslationMod_def folder_path file_path Let_def
        split: sum.splits elim!: andThen_Inr)
  note a = fsStep_mkdir [OF mk]
  note b = fsStep_write [OF w1]
  note c = fsStep_write [OF w2]
  have fw: "fs w' = fs w3" and con: "console w' = console w @ [ModCreated (js ''Translation'') ?out]"
    using a b c w' by (simp_all add: say_def)
  have "only_files_added (fs w1) (fs w2)" "only_files_added (fs w2) (fs w3)"
    using b c only_files_added_write [of "fs w1" "?out @ [js ''data.json'']" d]
      only_files_added_write [of "fs w2" "?out @ [js ''strings.json'']" c]
    by simp_all
  then have o: "only_files_added (fs w1) (fs w')"
    unfolding fw by (rule only_files_added_trans)
  have f2: "fs w' (?out @ [js ''strings.json'']) = Some (File c)"
    using c fw by simp
  have "fs w2 (?out @ [js ''data.json'']) = Some (File d)"
    using b by simp
  then have f1: "\<exists>c'. fs w' (?out @ [js ''data.json'']) = Some (File c')"
    using c fw by (auto simp: js_def)
  have dirs: "new_dirs_within (fs w) (fs w') ?out"
    using new_dirs_step [of "fs w1" "fs w" ?out "fs w'"] a o by simp
  from f1 f2 dirs con show ?thesis by simp
qed

lemma mkdirs_run:
  assumes "\<forall>n. 0 < n \<and> n \<le> length ss \<longrightarrow> \<not> is_file (lookup f (base @ take n ss))"
  shows "\<exists>f'. mkdirs f base ss = Inr f' \<and> (ss \<noteq> [] \<longrightarrow> f' (base @ ss) = Some Dir) \<and>
              (\<forall>q. f q \<noteq> None \<longrightarrow> f' q = f q)"
  using assms
proof (induction ss arbitrary: f base)
  case Nil
  show ?case by simp
next
  case (Cons s ss)
  let ?b = "base @ [s]"
  from Cons.prems [THEN spec, of 1] have nf: "\<not> is_file (lookup f ?b)" by simp
  define g where "g = (case lookup f ?b of None \<Rightarrow> f(?b \<mapsto> Dir) | Some x \<Rightarrow> f)"
  have step: "mkdirs f base (s # ss) = mkdirs g ?b ss"
    using nf by (auto simp: g_def is_file_def split: option.splits node.splits)
  have gb: "g ?b = Some Dir"
    using nf by (auto simp: g_def is_file_def lookup_def split: option.splits node.splits)
  have keep: "f q \<noteq> None \<longrightarrow> g q = f q" for q
    by (auto simp: g_def lookup_def split: option.splits)
  have pre: "\<forall>n. 0 < n \<and> n \<le> length ss \<longrightarrow> \<not> is_file (lookup g (?b @ take n ss))"
  proof (intro allI impI)
    fix n assume n: "0 < n \<and> n \<le> length ss"
    from Cons.prems [THEN spec, of "Suc n"] n
    have a: "\<not> is_file (lookup f (?b @ take n ss))" by simp
    from n have "take n ss \<noteq> []" by auto
    then have "lookup g (?b @ take n ss) = lookup f (?b @ take n ss)"
      by (auto simp: g_def lookup_def split: option.splits)
    with a show "\<not> is_file (lookup g (?b @ take n ss))" by simp
  qed
  from Cons.IH [OF pre] obtain f' where
      f': "mkdirs g ?b ss = Inr f'" "ss \<noteq> [] \<longrightarrow> f' (?b @ ss) = Some Dir"
          "\<forall>q. g q \<noteq> None \<longrightarrow> f' q = g q"
    by blast
  have tgt: "f' (base @ s # ss) = Some Dir"
  proof (cases "ss = []")
    case True
    with f'(3) gb show ?thesis by simp
  next
    case False
    with f'(2) show ?thesis by simp
  qed
  have "\<forall>q. f q \<noteq> None \<longrightarrow> f' q = f q"
    using keep f'(3) by metis
  with step f'(1) tgt show ?case by simp
qed

lemma creatable_prefix:
  "creatable f p \<Longrightarrow> n \<le> length p \<Longrightarrow> \<not> is_file (lookup f (take n p))"
  by (cases "n = length p") (auto simp: creatable_def list_all_iff)

lemma fsStep_mkdir_run:
  assumes "creatable (fs w) p"
  shows "\<exists>w1. fsStep (\<lambda>f. mkdirSync f p) w = (Inr (), w1) \<and> lookup (fs w1) p = Some Dir \<and>
              (\<forall>q. fs w q \<noteq> None \<longrightarrow> fs w1 q = fs w q) \<and>
              (\<forall>q. \<not> is_ancestor_or_self q p \<longrightarrow> fs w1 q = fs w q) \<and>
              console w1 = console w"
proof -
  have "\<forall>n. 0 < n \<and> n \<le> length p \<longrightarrow> \<not> is_file (lookup (fs w) ([] @ take n p))"
    using creatable_prefix [OF assms] by simp
  from mkdirs_run [OF this] obtain f' where
      f': "mkdirs (fs w) [] p = Inr f'" "p \<noteq> [] \<longrightarrow> f' p = Some Dir"
          "\<forall>q. fs w q \<noteq> None \<longrightarrow> f' q = fs w q"
    by auto
  have m: "mkdirSync (fs w) p = Inr f'"
    using f'(1) by (simp add: mkdirSync_def)
  have "lookup f' p = Some Dir"
    using f'(2) by (simp add: lookup_def)
  moreover have "\<forall>q. \<not> is_ancestor_or_self q p \<longrightarrow> f' q = fs w q"
    using mkdirSync_frame [OF m] by blast
  ultimately show ?thesis
    using m f'(3) by (simp add: fsStep_def)
qed

lemma fsStep_write_run:
  "lookup (fs w) p \<noteq> Some Dir \<Longrightarrow> lookup (fs w) (butlast p) = Some Dir \<Longrightarrow>
   fsStep (\<lambda>f. writeFileSync f p c) w = (Inr (), w\<lparr>fs := (fs w)(p \<mapsto> File c)\<rparr>)"
  by (simp add: fsStep_def writeFileSync_def)

lemma processTemplate_file:
  "lookup f p = Some (File t) \<Longrightarrow> processTemplate f p reps = substitute reps t"
  by (simp add: processTemplate_def readFileSync_def)

lemma substitute_total:
  "\<forall>kv\<in>set reps. \<not> list_ex regex_special (fst kv) \<Longrightarrow> \<exists>c. substitute reps t = Inr c"
  by (induction reps arbitrary: t) auto

lemma folderReplacements_total: "\<exists>c. substitute (folderReplacements modInfo) t = Inr c"
proof (rule substitute_total)
  have "\<not> list_ex regex_special (js ''name'')" "\<not> list_ex regex_special (js ''author'')"
       "\<not> list_ex regex_special (js ''description'')" "\<not> list_ex regex_special (js ''donation'')"
    by code_simp+
  then show "\<forall>kv\<in>set (folderReplacements modInfo). \<not> list_ex regex_special (fst kv)"
    by (simp add: folderReplacements_def)
qed

lemma seg_template_files:
  "split_on is_path_sep [] (js ''Automation/data.json'') = [js ''Automation'', js ''data.json'']"
  "split_on is_path_sep [] (js ''Automation/main.js'') = [js ''Automation'', js ''main.js'']"
  "split_on is_path_sep [] (js ''Automation/startup.js'') = [js ''Automation'', js ''startup.js'']"
  "split_on is_path_sep [] (js ''Automation/startup_info.json'') = [js ''Automation'', js ''startup_info.json'']"
  "split_on is_path_sep [] (js ''Theme'') = [js ''Theme'']"
  "split_on is_path_sep [] (js ''Translation'') = [js ''Translation'']"
  by code_simp+

lemma template_paths:
  "path_join d [js ''templates'', js ''Automation/data.json''] = d @ [js ''templates'', js ''Automation'', js ''data.json'']"
  "path_join d [js ''templates'', js ''Automation/main.js''] = d @ [js ''templates'', js ''Automation'', js ''main.js'']"
  "path_join d [js ''templates'', js ''Automation/startup.js''] = d @ [js ''templates'', js ''Automation'', js ''startup.js'']"
  "path_join d [js ''templates'', js ''Automation/startup_info.json''] = d @ [js ''templates'', js ''Automation'', js ''startup_info.json'']"
  "path_join d [js ''templates'', js ''Theme'', js ''data.json''] = d @ [js ''templates'', js ''Theme'', js ''data.json'']"
  "path_join d [js ''templates'', js ''Theme'', js ''theme.css''] = d @ [js ''templates'', js ''Theme'', js ''theme.css'']"
  "path_join d [js ''templates'', js ''Translation'', js ''data.json''] = d @ [js ''templates'', js ''Translation'', js ''data.json'']"
  "path_join d [js ''templates'', js ''Translation'', js ''strings.json''] = d @ [js ''templates'', js ''Translation'', js ''strings.json'']"
  by (simp_all add: path_join_Cons seg_templates seg_template_files seg_files js_plain_seg)

lemma not_above: "\<not> is_ancestor_or_self (p @ [a]) p"
  by (simp add: is_ancestor_or_self_def)

lemma type_names:
  "js ''Automation'' \<noteq> js ''Automations''" "js ''Theme'' \<noteq> js ''Themes''"
  "js ''Translation'' \<noteq> js ''Translations''"
  by (simp_all add: js_def)

lemma theme_runs:
  assumes name: "modInfo ''modName'' = Some modName" and slug: "sanitizeFolderName modName = []"
      and t1: "lookup (fs w) (dirname rt @ [js ''templates'', js ''Theme'', js ''data.json'']) = Some (File t1)"
      and t2: "lookup (fs w) (dirname rt @ [js ''templates'', js ''Theme'', js ''theme.css'']) = Some (File t2)"
      and mk: "creatable (fs w) (bmdPath @ [js ''Themes''])"
      and o1: "lookup (fs w) (bmdPath @ [js ''Themes'', js ''data.json'']) \<noteq> Some Dir"
      and o2: "lookup (fs w) (bmdPath @ [js ''Themes'', js ''theme.css'']) \<noteq> Some Dir"
  shows "\<exists>w' c1. createThemeMod rt bmdPath modInfo w = (Inr (), w') \<and>
           substitute (folderReplacements modInfo) t1 = Inr c1 \<and>
           fs w' (bmdPath @ [js ''Themes'', js ''data.json'']) = Some (File c1) \<and>
           fs w' (bmdPath @ [js ''Themes'', js ''theme.css'']) = Some (File t2)"
proof -
  let ?out = "bmdPath @ [js ''Themes'']"
  let ?d = "dirname rt @ [js ''templates'', js ''Theme'', js ''data.json'']"
  let ?c = "dirname rt @ [js ''templates'', js ''Theme'', js ''theme.css'']"
  from fsStep_mkdir_run [OF mk] obtain w1 where
      w1: "fsStep (\<lambda>f. mkdirSync f ?out) w = (Inr (), w1)" "lookup (fs w1) ?out = Some Dir"
          "\<forall>q. fs w q \<noteq> None \<longrightarrow> fs w1 q = fs w q"
          "\<forall>q. \<not> is_ancestor_or_self q ?out \<longrightarrow> fs w1 q = fs w q"
    by blast
  obtain c1 where c1: "substitute (folderReplacements modInfo) t1 = Inr c1"
    using folderReplacements_total by blast
  have r1: "lookup (fs w1) ?d = Some (File t1)" and r2: "lookup (fs w1) ?c = Some (File t2)"
    using t1 t2 w1(3) by (auto simp: lookup_def split: if_splits)
  have p1: "processTemplate (fs w1) ?d (folderReplacements modInfo) = Inr c1"
    using processTemplate_file [OF r1] c1 by simp
  have rd: "readFileSync (fs w1) ?c = Inr t2"
    using r2 by (simp add: readFileSync_def)
  have n1: "lookup (fs w1) (?out @ [js ''data.json'']) \<noteq> Some Dir"
    using o1 w1(4) [THEN spec, of "?out @ [js ''data.json'']"] not_above [of ?out]
    by (simp add: lookup_def)
  have n2: "lookup (fs w1) (?out @ [js ''theme.css'']) \<noteq> Some Dir"
    using o2 w1(4) [THEN spec, of "?out @ [js ''theme.css'']"] not_above [of ?out]
    by (simp add: lookup_def)
  let ?w2 = "w1\<lparr>fs := (fs w1)(?out @ [js ''data.json''] \<mapsto> File c1)\<rparr>"
  have s1: "fsStep (\<lambda>f. writeFileSync f (?out @ [js ''data.json'']) c1) w1 = (Inr (), ?w2)"
    using n1 w1(2) by (intro fsStep_write_run) (simp_all add: butlast_append)
  let ?w3 = "?w2\<lparr>fs := (fs ?w2)(?out @ [js ''theme.css''] \<mapsto> File t2)\<rparr>"
  have s2: "fsStep (\<lambda>f. writeFileSync f (?out @ [js ''theme.css'']) t2) ?w2 = (Inr (), ?w3)"
    using n2 w1(2) by (intro fsStep_write_run) (simp_all add: lookup_def js_def butlast_append)
  have "createThemeMod rt bmdPath modInfo w = (Inr (), say (ModCreated (js ''Theme'') ?out) ?w3)"
    using name slug w1(1) p1 rd s1 s2
    by (simp add: createThemeMod_def folder_path file_path template_paths Let_def)
  moreover have "fs (say (ModCreated (js ''Theme'') ?out) ?w3) (?out @ [js ''data.json'']) = Some (File c1)"
    by (simp add: say_def js_def)
  moreover have "fs (say (ModCreated (js ''Theme'') ?out) ?w3) (?out @ [js ''theme.css'']) = Some (File t2)"
    by (simp add: say_def)
  ultimately show ?thesis using c1 by auto
qed

lemma translation_runs:
  assumes name: "modInfo ''modName'' = Some modName" and slug: "sanitizeFolderName modName = []"
      and t1: "lookup (fs w) (dirname rt @ [js ''templates'', js ''Translation'', js ''data.json'']) = Some (File t1)"
      and t2: "lookup (fs w) (dirname rt @ [js ''templates'', js ''Translation'', js ''strings.json'']) = Some (File t2)"
      and mk: "creatable (fs w) (bmdPath @ [js ''Translations''])"
      and o1: "lookup (fs w) (bmdPath @ [js ''Translations'', js ''data.json'']) \<noteq> Some Dir"
      and o2: "lookup (fs w) (bmdPath @ [js ''Translations'', js ''strings.json'']) \<noteq> Some Dir"
  shows "\<exists>w' c1. createTranslationMod rt bmdPath modInfo w = (Inr (), w') \<and>
           substitute (folderReplacements modInfo) t1 = Inr c1 \<and>
           fs w' (bmdPath @ [js ''Translations'', js ''data.json'']) = Some (File c1) \<and>
           fs w' (bmdPath @ [js ''Translations'', js ''strings.json'']) = Some (File t2)"
proof -
  let ?out = "bmdPath @ [js ''Translations'']"
  let ?d = "dirname rt @ [js ''templates'', js ''Translation'', js ''data.json'']"
  let ?c = "dirname rt @ [js ''templates'', js ''Translation'', js ''strings.json'']"
  from fsStep_mkdir_run [OF mk] obtain w1 where
      w1: "fsStep (\<lambda>f. mkdirSync f ?out) w = (Inr (), w1)" "lookup (fs w1) ?out = Some Dir"
          "\<forall>q. fs w q \<noteq> None \<longrightarrow> fs w1 q = fs w q"
          "\<forall>q. \<not> is_ancestor_or_self q ?out \<longrightarrow> fs w1 q = fs w q"
    by blast
  obtain c1 where c1: "substitute (folderReplacements modInfo) t1 = Inr c1"
    using folderReplacements_total by blast
  have r1: "lookup (fs w1) ?d = Some (File t1)" and r2: "lookup (fs w1) ?c = Some (File t2)"
    using t1 t2 w1(3) by (auto simp: lookup_def split: if_splits)
  have p1: "processTemplate (fs w1) ?d (folderReplacements modInfo) = Inr c1"
    using processTemplate_file [OF r1] c1 by simp
  have rd: "readFileSync (fs w1) ?c = Inr t2"
    using r2 by (simp add: readFileSync_def)
  have n1: "lookup (fs w1) (?out @ [js ''data.json'']) \<noteq> Some Dir"
    using o1 w1(4) [THEN spec, of "?out @ [js ''data.json'']"] not_above [of ?out]
    by (simp add: lookup_def)
  have n2: "lookup (fs w1) (?out @ [js ''strings.json'']) \<noteq> Some Dir"
    using o2 w1(4) [THEN spec, of "?out @ [js ''strings.json'']"] not_above [of ?out]
    by (simp add: lookup_def)
  let ?w2 = "w1\<lparr>fs := (fs w1)(?out @ [js ''data.json''] \<mapsto> File c1)\<rparr>"
  have s1: "fsStep (\<lambda>f. writeFileSync f (?out @ [js ''data.json'']) c1) w1 = (Inr (), ?w2)"
    using n1 w1(2) by (intro fsStep_write_run) (simp_all add: butlast_append)
  let ?w3 = "?w2\<lparr>fs := (fs ?w2)(?out @ [js ''strings.json''] \<mapsto> File t2)\<rparr>"
  have s2: "fsStep (\<lambda>f. writeFileSync f (?out @ [js ''strings.json'']) t2) ?w2 = (Inr (), ?w3)"
    using n2 w1(2) by (intro fsStep_write_run) (simp_all add: lookup_def js_def butlast_append)
  have "createTranslationMod rt bmdPath modInfo w = (Inr (), say (ModCreated (js ''Translation'') ?out) ?w3)"
    using name slug w1(1) p1 rd s1 s2
    by (simp add: createTranslationMod_def folder_path file_path template_paths Let_def)
  moreover have "fs (say (ModCreated (js ''Translation'') ?out) ?w3) (?out @ [js ''data.json'']) = Some (File c1)"
    by (simp add: say_def js_def)
  moreover have "fs (say (ModCreated (js ''Translation'') ?out) ?w3) (?out @ [js ''strings.json'']) = Some (File t2)"
    by (simp add: say_def)
  ultimately show ?thesis using c1 by auto
qed

lemma automation_runs:
  assumes name: "modInfo ''modName'' = Some modName" and slug: "sanitizeFolderName modName = []"
      and t1: "lookup (fs w) (dirname rt @ [js ''templates'', js ''Automation'', js ''data.json'']) = Some (File t1)"
      and t2: "lookup (fs w) (dirname rt @ [js ''templates'', js ''Automation'', js ''main.js'']) = Some (File t2)"
      and t3: "lookup (fs w) (dirname rt @ [js ''templates'', js ''Automation'', js ''startup.js'']) = Some (File t3)"
      and t4: "lookup (fs w) (dirname rt @ [js ''templates'', js ''Automation'', js ''startup_info.json'']) = Some (File t4)"
      and mk: "creatable (fs w) (bmdPath @ [js ''Automations''])"
      and o1: "lookup (fs w) (bmdPath @ [js ''Automations'', js ''data.json'']) \<noteq> Some Dir"
      and o2: "lookup (fs w) (bmdPath @ [js ''Automations'', js ''main.js'']) \<noteq> Some Dir"
      and o3: "lookup (fs w) (bmdPath @ [js ''Automations'', js ''startup.js'']) \<noteq> Some Dir"
      and o4: "lookup (fs w) (bmdPath @ [js ''Automations'', js ''startup_info.json'']) \<noteq> Some Dir"
  shows "\<exists>w' c1 c2 c3 c4. createAutomationMod rt bmdPath modInfo w = (Inr (), w') \<and>
           substitute (folderReplacements modInfo) t1 = Inr c1 \<and>
           substitute (folderReplacements modInfo) t2 = Inr c2 \<and>
           substitute (folderReplacements modInfo) t3 = Inr c3 \<and>
           substitute (folderReplacements modInfo) t4 = Inr c4 \<and>
           fs w' (bmdPath @ [js ''Automations'', js ''data.json'']) = Some (File c1) \<and>
           fs w' (bmdPath @ [js ''Automations'', js ''main.js'']) = Some (File c2) \<and>
           fs w' (bmdPath @ [js ''Automations'', js ''startup.js'']) = Some (File c3) \<and>
           fs w' (bmdPath @ [js ''Automations'', js ''startup_info.json'']) = Some (File c4)"
proof -
  let ?out = "bmdPath @ [js ''Automations'']"
  let ?reps = "folderReplacements modInfo"
  let ?p1 = "dirname rt @ [js ''templates'', js ''Automation'', js ''data.json'']"
  let ?p2 = "dirname rt @ [js ''templates'', js ''Automation'', js ''main.js'']"
  let ?p3 = "dirname rt @ [js ''templates'', js ''Automation'', js ''startup.js'']"
  let ?p4 = "dirname rt @ [js ''templates'', js ''Automation'', js ''startup_info.json'']"
  from fsStep_mkdir_run [OF mk] obtain w1 where
      w1: "fsStep (\<lambda>f. mkdirSync f ?out) w = (Inr (), w1)" "lookup (fs w1) ?out = Some Dir"
          "\<forall>q. fs w q \<noteq> None \<longrightarrow> fs w1 q = fs w q"
          "\<forall>q. \<not> is_ancestor_or_self q ?out \<longrightarrow> fs w1 q = fs w q"
    by blast
  obtain c1 c2 c3 c4 where
      c: "substitute ?reps t1 = Inr c1" "substitute ?reps t2 = Inr c2"
         "substitute ?reps t3 = Inr c3" "substitute ?reps t4 = Inr c4"
    using folderReplacements_total by metis
  have r: "lookup (fs w1) ?p1 = Some (File t1)" "lookup (fs w1) ?p2 = Some (File t2)"
          "lookup (fs w1) ?p3 = Some (File t3)" "lookup (fs w1) ?p4 = Some (File t4)"
    using t1 t2 t3 t4 w1(3) by (auto simp: lookup_def split: if_splits)
  have n: "lookup (fs w1) (?out @ [x]) \<noteq> Some Dir"
    if "lookup (fs w) (?out @ [x]) \<noteq> Some Dir" for x
    using that w1(4) [THEN spec, of "?out @ [x]"] not_above [of ?out]
    by (simp add: lookup_def)
  let ?w2 = "w1\<lparr>fs := (fs w1)(?out @ [js ''data.json''] \<mapsto> File c1)\<rparr>"
  let ?w3 = "?w2\<lparr>fs := (fs ?w2)(?out @ [js ''main.js''] \<mapsto> File c2)\<rparr>"
  let ?w4 = "?w3\<lparr>fs := (fs ?w3)(?out @ [js ''startup.js''] \<mapsto> File c3)\<rparr>"
  let ?w5 = "?w4\<lparr>fs := (fs ?w4)(?out @ [js ''startup_info.json''] \<mapsto> File c4)\<rparr>"
  have p1: "processTemplate (fs w1) ?p1 ?reps = Inr c1"
    using r(1) c(1) by (simp add: processTemplate_file)
  have s1: "fsStep (\<lambda>f. writeFileSync f (?out @ [js ''data.json'']) c1) w1 = (Inr (), ?w2)"
    using n [of "js ''data.json''"] o1 w1(2)
    by (intro fsStep_write_run) (simp_all add: butlast_append)
  have p2: "processTemplate (fs ?w2) ?p2 ?reps = Inr c2"
    using r(2) c(2) type_names(1) by (simp add: processTemplate_def readFileSync_def lookup_def)
  have s2: "fsStep (\<lambda>f. writeFileSync f (?out @ [js ''main.js'']) c2) ?w2 = (Inr (), ?w3)"
    using n [of "js ''main.js''"] o2 w1(2)
    by (intro fsStep_write_run) (simp_all add: lookup_def js_def butlast_append)
  have p3: "processTemplate (fs ?w3) ?p3 ?reps = Inr c3"
    using r(3) c(3) type_names(1) by (simp add: processTemplate_def readFileSync_def lookup_def)
  have s3: "fsStep (\<lambda>f. writeFileSync f (?out @ [js ''startup.js'']) c3) ?w3 = (Inr (), ?w4)"
    using n [of "js ''startup.js''"] o3 w1(2)
    by (intro fsStep_write_run) (simp_all add: lookup_def js_def butlast_append)
  have p4: "processTemplate (fs ?w4) ?p4 ?reps = Inr c4"
    using r(4) c(4) type_names(1) by (simp add: processTemplate_def readFileSync_def lookup_def)
  have s4: "fsStep (\<lambda>f. writeFileSync f (?out @ [js ''startup_info.json'']) c4) ?w4 = (Inr (), ?w5)"
    using n [of "js ''startup_info.json''"] o4 w1(2)
    by (intro fsStep_write_run) (simp_all add: lookup_def js_def butlast_append)
  have run: "createAutomationMod rt bmdPath modInfo w =
             (Inr (), say (ModCreated (js ''Automation'') ?out) ?w5)"
    using name slug w1(1) p1 s1 p2 s2 p3 s3 p4 s4
    by (simp add: createAutomationMod_def folder_path file_path template_paths Let_def)
  have "fs (say (ModCreated (js ''Automation'') ?out) ?w5) (?out @ [js ''data.json'']) = Some (File c1)"
       "fs (say (ModCreated (js ''Automation'') ?out) ?w5) (?out @ [js ''main.js'']) = Some (File c2)"
       "fs (say (ModCreated (js ''Automation'') ?out) ?w5) (?out @ [js ''startup.js'']) = Some (File c3)"
       "fs (say (ModCreated (js ''Automation'') ?out) ?w5) (?out @ [js ''startup_info.json'']) = Some (File c4)"
    by (simp_all add: say_def js_def)
  with run c show ?thesis by auto
qed

text \<open>
  Claim C9. For a mod name in which every character is whitespace or is neither alphanumeric,
  an underscore nor a hyphen, \<open>sanitizeFolderName\<close> returns the empty string. Each of the three
  folder-based generators then succeeds wherever its templates are files, no file stands where
  the type's output directory under the installation root (\<open>Automations\<close>, \<open>Themes\<close>,
  \<open>Translations\<close>) or one of its ancestors has to be, and none of its output files is a
  directory. It writes its files directly into that directory, each with the text of its
  template after substitution (the style sheet and the strings file are copied as they are),
  reports that directory as the mod's location, and creates no directory other than that one
  and its ancestors.
\<close>

theorem empty_slug_no_subfolder:
  assumes "\<forall>c\<in>set modName. is_ws c \<or> \<not> (is_word c \<or> c = 45)"
      and "modInfo ''modName'' = Some modName"
  shows "sanitizeFolderName modName = [] \<and>
         (\<forall>t1 t2 t3 t4.
            lookup (fs w) (dirname rt @ [js ''templates'', js ''Automation'', js ''data.json'']) = Some (File t1) \<and>
            lookup (fs w) (dirname rt @ [js ''templates'', js ''Automation'', js ''main.js'']) = Some (File t2) \<and>
            lookup (fs w) (dirname rt @ [js ''templates'', js ''Automation'', js ''startup.js'']) = Some (File t3) \<and>
            lookup (fs w) (dirname rt @ [js ''templates'', js ''Automation'', js ''startup_info.json'']) = Some (File t4) \<and>
            creatable (fs w) (bmdPath @ [js ''Automations'']) \<and>
            lookup (fs w) (bmdPath @ [js ''Automations'', js ''data.json'']) \<noteq> Some Dir \<and>
            lookup (fs w) (bmdPath @ [js ''Automations'', js ''main.js'']) \<noteq> Some Dir \<and>
            lookup (fs w) (bmdPath @ [js ''Automations'', js ''startup.js'']) \<noteq> Some Dir \<and>
            lookup (fs w) (bmdPath @ [js ''Automations'', js ''startup_info.json'']) \<noteq> Some Dir \<longrightarrow>
            (\<exists>w' c1 c2 c3 c4.
               createAutomationMod rt bmdPath modInfo w = (Inr (), w') \<and>
               substitute (folderReplacements modInfo) t1 = Inr c1 \<and>
               substitute (folderReplacements modInfo) t2 = Inr c2 \<and>
               substitute (folderReplacements modInfo) t3 = Inr c3 \<and>
               substitute (folderReplacements modInfo) t4 = Inr c4 \<and>
               fs w' (bmdPath @ [js ''Automations'', js ''data.json'']) = Some (File c1) \<and>
               fs w' (bmdPath @ [js ''Automations'', js ''main.js'']) = Some (File c2) \<and>
               fs w' (bmdPath @ [js ''Automations'', js ''startup.js'']) = Some (File c3) \<and>
               fs w' (bmdPath @ [js ''Automations'', js ''startup_info.json'']) = Some (File c4) \<and>
               new_dirs_within (fs w) (fs w') (bmdPath @ [js ''Automations'']) \<and>
               console w' = console w @ [ModCreated (js ''Automation'') (bmdPath @ [js ''Automations''])])) \<and>
         (\<forall>t1 t2.
            lookup (fs w) (dirname rt @ [js ''templates'', js ''Theme'', js ''data.json'']) = Some (File t1) \<and>
            lookup (fs w) (dirname rt @ [js ''templates'', js ''Theme'', js ''theme.css'']) = Some (File t2) \<and>
            creatable (fs w) (bmdPath @ [js ''Themes'']) \<and>
            lookup (fs w) (bmdPath @ [js ''Themes'', js ''data.json'']) \<noteq> Some Dir \<and>
            lookup (fs w) (bmdPath @ [js ''Themes'', js ''theme.css'']) \<noteq> Some Dir \<longrightarrow>
            (\<exists>w' c1.
               createThemeMod rt bmdPath modInfo w = (Inr (), w') \<and>
               substitute (folderReplacements modInfo) t1 = Inr c1 \<and>
               fs w' (bmdPath @ [js ''Themes'', js ''data.json'']) = Some (File c1) \<and>
               fs w' (bmdPath @ [js ''Themes'', js ''theme.css'']) = Some (File t2) \<and>
               new_dirs_within (fs w) (fs w') (bmdPath @ [js ''Themes'']) \<and>
               console w' = console w @ [ModCreated (js ''Theme'') (bmdPath @ [js ''Themes''])])) \<and>
         (\<forall>t1 t2.
            lookup (fs w) (dirname rt @ [js ''templates'', js ''Translation'', js ''data.json'']) = Some (File t1) \<and>
            lookup (fs w) (dirname rt @ [js ''templates'', js ''Translation'', js ''strings.json'']) = Some (File t2) \<and>
            creatable (fs w) (bmdPath @ [js ''Translations'']) \<and>
            lookup (fs w) (bmdPath @ [js ''Translations'', js ''data.json'']) \<noteq> Some Dir \<and>
            lookup (fs w) (bmdPath @ [js ''Translations'', js ''strings.json'']) \<noteq> Some Dir \<longrightarrow>
            (\<exists>w' c1.
               createTranslationMod rt bmdPath modInfo w = (Inr (), w') \<and>
               substitute (folderReplacements modInfo) t1 = Inr c1 \<and>
               fs w' (bmdPath @ [js ''Translations'', js ''data.json'']) = Some (File c1) \<and>
               fs w' (bmdPath @ [js ''Translations'', js ''strings.json'']) = Some (File t2) \<and>
               new_dirs_within (fs w) (fs w') (bmdPath @ [js ''Translations'']) \<and>
               console w' = console w @ [ModCreated (js ''Translation'') (bmdPath @ [js ''Translations''])]))"
proof -
  have e: "sanitizeFolderName modName = []"
    using assms(1) by (rule sanitize_empty)
  have a: "\<exists>w' c1 c2 c3 c4.
               createAutomationMod rt bmdPath modInfo w = (Inr (), w') \<and>
               substitute (folderReplacements modInfo) t1 = Inr c1 \<and>
               substitute (folderReplacements modInfo) t2 = Inr c2 \<and>
               substitute (folderReplacements modInfo) t3 = Inr c3 \<and>
               substitute (folderReplacements modInfo) t4 = Inr c4 \<and>
               fs w' (bmdPath @ [js ''Automations'', js ''data.json'']) = Some (File c1) \<and>
               fs w' (bmdPath @ [js ''Automations'', js ''main.js'']) = Some (File c2) \<and>
               fs w' (bmdPath @ [js ''Automations'', js ''startup.js'']) = Some (File c3) \<and>
               fs w' (bmdPath @ [js ''Automations'', js ''startup_info.json'']) = Some (File c4) \<and>
               new_dirs_within (fs w) (fs w') (bmdPath @ [js ''Automations'']) \<and>
               console w' = console w @ [ModCreated (js ''Automation'') (bmdPath @ [js ''Automations''])]"
    if "lookup (fs w) (dirname rt @ [js ''templates'', js ''Automation'', js ''data.json'']) = Some (File t1)"
       "lookup (fs w) (dirname rt @ [js ''templates'', js ''Automation'', js ''main.js'']) = Some (File t2)"
       "lookup (fs w) (dirname rt @ [js ''templates'', js ''Automation'', js ''startup.js'']) = Some (File t3)"
       "lookup (fs w) (dirname rt @ [js ''templates'', js ''Automation'', js ''startup_info.json'']) = Some (File t4)"
       "creatable (fs w) (bmdPath @ [js ''Automations''])"
       "lookup (fs w) (bmdPath @ [js ''Automations'', js ''data.json'']) \<noteq> Some Dir"
       "lookup (fs w) (bmdPath @ [js ''Automations'', js ''main.js'']) \<noteq> Some Dir"
       "lookup (fs w) (bmdPath @ [js ''Automations'', js ''startup.js'']) \<noteq> Some Dir"
       "lookup (fs w) (bmdPath @ [js ''Automations'', js ''startup_info.json'']) \<noteq> Some Dir"
    for t1 t2 t3 t4
  proof -
    from automation_runs [where modInfo = modInfo and modName = modName, OF assms(2) e that]
    obtain w' c1 c2 c3 c4 where
        r: "createAutomationMod rt bmdPath modInfo w = (Inr (), w')"
           "substitute (folderReplacements modInfo) t1 = Inr c1"
           "substitute (folderReplacements modInfo) t2 = Inr c2"
           "substitute (folderReplacements modInfo) t3 = Inr c3"
           "substitute (folderReplacements modInfo) t4 = Inr c4"
           "fs w' (bmdPath @ [js ''Automations'', js ''data.json'']) = Some (File c1)"
           "fs w' (bmdPath @ [js ''Automations'', js ''main.js'']) = Some (File c2)"
           "fs w' (bmdPath @ [js ''Automations'', js ''startup.js'']) = Some (File c3)"
           "fs w' (bmdPath @ [js ''Automations'', js ''startup_info.json'']) = Some (File c4)"
      by blast
    from automation_empty_slug [where modInfo = modInfo and modName = modName, OF assms(2) e r(1)]
    have "new_dirs_within (fs w) (fs w') (bmdPath @ [js ''Automations''])"
         "console w' = console w @ [ModCreated (js ''Automation'') (bmdPath @ [js ''Automations''])]"
      by simp_all
    with r show ?thesis by blast
  qed
  have b: "\<exists>w' c1.
               createThemeMod rt bmdPath modInfo w = (Inr (), w') \<and>
               substitute (folderReplacements modInfo) t1 = Inr c1 \<and>
               fs w' (bmdPath @ [js ''Themes'', js ''data.json'']) = Some (File c1) \<and>
               fs w' (bmdPath @ [js ''Themes'', js ''theme.css'']) = Some (File t2) \<and>
               new_dirs_within (fs w) (fs w') (bmdPath @ [js ''Themes'']) \<and>
               console w' = console w @ [ModCreated (js ''Theme'') (bmdPath @ [js ''Themes''])]"
    if "lookup (fs w) (dirname rt @ [js ''templates'', js ''Theme'', js ''data.json'']) = Some (File t1)"
       "lookup (fs w) (dirname rt @ [js ''templates'', js ''Theme'', js ''theme.css'']) = Some (File t2)"
       "creatable (fs w) (bmdPath @ [js ''Themes''])"
       "lookup (fs w) (bmdPath @ [js ''Themes'', js ''data.json'']) \<noteq> Some Dir"
       "lookup (fs w) (bmdPath @ [js ''Themes'', js ''theme.css'']) \<noteq> Some Dir"
    for t1 t2
  proof -
    from theme_runs [where modInfo = modInfo and modName = modName, OF assms(2) e that]
    obtain w' c1 where
        r: "createThemeMod rt bmdPath modInfo w = (Inr (), w')"
           "substitute (folderReplacements modInfo) t1 = Inr c1"
           "fs w' (bmdPath @ [js ''Themes'', js ''data.json'']) = Some (File c1)"
           "fs w' (bmdPath @ [js ''Themes'', js ''theme.css'']) = Some (File t2)"
      by blast
    from theme_empty_slug [where modInfo = modInfo and modName = modName, OF assms(2) e r(1)]
    have "new_dirs_within (fs w) (fs w') (bmdPath @ [js ''Themes''])"
         "console w' = console w @ [ModCreated (js ''Theme'') (bmdPath @ [js ''Themes''])]"
      by simp_all
    with r show ?thesis by blast
  qed
  have c: "\<exists>w' c1.
               createTranslationMod rt bmdPath modInfo w = (Inr (), w') \<and>
               substitute (folderReplacements modInfo) t1 = Inr c1 \<and>
               fs w' (bmdPath @ [js ''Translations'', js ''data.json'']) = Some (File c1) \<and>
               fs w' (bmdPath @ [js ''Translations'', js ''strings.json'']) = Some (File t2) \<and>
               new_dirs_within (fs w) (fs w') (bmdPath @ [js ''Translations'']) \<and>
               console w' = console w @ [ModCreated (js ''Translation'') (bmdPath @ [js ''Translations''])]"
    if "lookup (fs w) (dirname rt @ [js ''templates'', js ''Translation'', js ''data.json'']) = Some (File t1)"
       "lookup (fs w) (dirname rt @ [js ''templates'', js ''Translation'', js ''strings.json'']) = Some (File t2)"
       "creatable (fs w) (bmdPath @ [js ''Translations''])"
       "lookup (fs w) (bmdPath @ [js ''Translations'', js ''data.json'']) \<noteq> Some Dir"
       "lookup (fs w) (bmdPath @ [js ''Translations'', js ''strings.json'']) \<noteq> Some Dir"
    for t1 t2
  proof -
    from translation_runs [where modInfo = modInfo and modName = modName, OF assms(2) e that]
    obtain w' c1 where
        r: "createTranslationMod rt bmdPath modInfo w = (Inr (), w')"
           "substitute (folderReplacements modInfo) t1 = Inr c1"
           "fs w' (bmdPath @ [js ''Translations'', js ''data.json'']) = Some (File c1)"
           "fs w' (bmdPath @ [js ''Translations'', js ''strings.json'']) = Some (File t2)"
      by blast
    from translation_empty_slug [where modInfo = modInfo and modName = modName, OF assms(2) e r(1)]
    have "new_dirs_within (fs w) (fs w') (bmdPath @ [js ''Translations''])"
         "console w' = console w @ [ModCreated (js ''Translation'') (bmdPath @ [js ''Translations''])]"
      by simp_all
    with r show ?thesis by blast
  qed
  from e a b c show ?thesis by blast
qed

subsection \<open>Replacement values with dollar signs\<close>

text \<open>
  Claim C3, the failing input. The template text is "Hello //name//!" and the replacement map
  gives \<open>name\<close> the value "A$$B". \<open>processTemplate\<close> hands the value to the replace
  operation as a replacement pattern, in which "$$" stands for one dollar sign: the result is
  "Hello A$B!", not the template with the marker replaced by the value.
\<close>

theorem processTemplate_dollar_pattern:
  "processTemplate [[js ''t.js''] \<mapsto> File (js ''Hello //name//!'')] [js ''t.js'']
     [(js ''name'', Some (js ''A$$B''))] = Inr (js ''Hello A$B!'') \<and>
   js ''Hello A$B!'' \<noteq> js ''Hello A$$B!''"
  by code_simp

subsection \<open>Instances\<close>

lemma installed_lookups:
  "lookup (fs installed) (dirname rt0 @ [js ''templates'', js ''Action.js'']) = Some (File Action_template)"
  "lookup (fs installed) (installPath @ [js ''AppData'', js ''Actions'']) = Some Dir"
  "lookup (fs installed) (installPath @ [js ''AppData'', js ''Actions'', js ''myCoolMod_MOD.js'']) = None"
  by (simp_all add: installed_def installedFs_def lookup_def rt0_def installPath_def js_def)

lemma garbled_parse: "JSON_parse rt0 (js ''{oops'') = None"
  by (simp add: rt0_def parse0_def js_def)

lemma coolMod_values:
  "coolMod ''modName'' = Some (js ''My Cool Mod'')" "coolMod ''modType'' = Some (js ''Action'')"
  "coolMod ''modAuthor'' = Some (js ''Alex'')" "coolMod ''modDescription'' = Some (js ''desc'')"
  "coolMod ''modCategory'' = Some (js ''Message'')" "coolMod ''modDonation'' = Some []"
  by (simp_all add: coolMod_def)

text \<open>Claim C6, witness: the run on a file system that holds the template and an installation.\<close>

theorem createActionMod_example_witness:
  "lookup (fs installed) (dirname rt0 @ [js ''templates'', js ''Action.js'']) = Some (File Action_template) \<and>
   lookup (fs installed) (installPath @ [js ''AppData'', js ''Actions'']) = Some Dir \<and>
   lookup (fs installed) (installPath @ [js ''AppData'', js ''Actions'', js ''myCoolMod_MOD.js'']) \<noteq> Some Dir \<and>
   createMod rt0 (coolMod ''modType'') installPath coolMod installed =
     (Inr (),
      say (ModCreated (js ''Action'') (installPath @ [js ''AppData'', js ''Actions'', js ''myCoolMod_MOD.js'']))
        (installed\<lparr>fs := (fs installed)(installPath @ [js ''AppData'', js ''Actions'', js ''myCoolMod_MOD.js'']
                        \<mapsto> File Action_rendered)\<rparr>))"
proof -
  have a: "lookup (fs installed) (installPath @ [js ''AppData'', js ''Actions'', js ''myCoolMod_MOD.js'']) \<noteq> Some Dir"
    by (simp add: installed_lookups(3))
  from createActionMod_example [OF coolMod_values installed_lookups(1,2) a] installed_lookups(1,2) a
  show ?thesis by simp
qed

text \<open>Claim C7, witness: the operator enters "My Cool Mod", picks Action and accepts the default category.\<close>

theorem modInfo_invariant_witness:
  "promptForInitialInfo bare = (Inr coolInitial, bare\<lparr>keys := drop 2 coolKeys\<rparr>) \<and>
   promptForDetailedInfo coolInitial (JObject Map.empty) (bare\<lparr>keys := drop 2 coolKeys\<rparr>) =
     (Inr coolDetailed, bare\<lparr>keys := []\<rparr>) \<and>
   (\<exists>t d. (coolInitial ++ coolDetailed) ''modType'' = Some t \<and>
           t \<in> {js ''Action'', js ''Event'', js ''Automation'', js ''Theme'', js ''Translation''} \<and>
           map_of MOD_TYPES t = Some d \<and>
           (((coolInitial ++ coolDetailed) ''modCategory'' \<noteq> None) = requiresCategory d) \<and>
           (requiresCategory d = (t = js ''Action'')))"
proof -
  have a: "promptForInitialInfo bare = (Inr coolInitial, bare\<lparr>keys := drop 2 coolKeys\<rparr>)"
    using bare_s3 [of Map.empty "[]"] by (simp add: bare_def)
  have b: "promptForDetailedInfo coolInitial (JObject Map.empty) (bare\<lparr>keys := drop 2 coolKeys\<rparr>) =
     (Inr coolDetailed, bare\<lparr>keys := []\<rparr>)"
    using bare_s4 [of Map.empty "[]"] by (simp add: bare_def)
  from modInfo_invariant [OF a b] a b show ?thesis by blast
qed

text \<open>Claim C8, witness: a world with no config file, and one whose config file holds "{oops".\<close>

theorem loadConfig_empty_on_failure_witness:
  "\<not> existsSync (fs bare) (configFile rt0) \<and>
   loadConfig rt0 bare = (Inr (JObject Map.empty), bare) \<and>
   readFileSync (fs garbled) (configFile rt0) = Inr (js ''{oops'') \<and>
   JSON_parse rt0 (js ''{oops'') = None \<and>
   loadConfig rt0 garbled = (Inr (JObject Map.empty), say WarnLoadConfig garbled)"
proof -
  have a: "\<not> existsSync (fs bare) (configFile rt0)"
    by (simp add: existsSync_def lookup_def bare_def configFile_eq)
  have b: "readFileSync (fs garbled) (configFile rt0) = Inr (js ''{oops'')"
    by (simp add: readFileSync_def lookup_def garbled_def configFile_eq)
  from loadConfig_empty_on_failure [of bare rt0] loadConfig_empty_on_failure [of garbled rt0]
    a b garbled_parse
  show ?thesis by blast
qed

lemma bare_writable:
  "lookup cfgDirs (configFolder rt0) = Some Dir" "lookup cfgDirs (configFile rt0) \<noteq> Some Dir"
  by (simp_all add: lookup_def cfgDirs_def rt0_def configFile_eq js_def)

lemma bare_s5:
  "saveConfig rt0 (updatedConfig (JObject Map.empty) (coolInitial ++ coolDetailed))
     \<lparr>fs = cfgDirs, console = [Blank], keys = []\<rparr> = (Inr (), bareSaved)"
  using saveConfig_writable [of "\<lparr>fs = cfgDirs, console = [Blank], keys = []\<rparr>" rt0
      "updatedConfig (JObject Map.empty) (coolInitial ++ coolDetailed)"] bare_writable
  by (simp add: bareSaved_def rt0_def)

lemma bare_reaches:
  "reaches_detection rt0 bare (JObject Map.empty) (coolInitial ++ coolDetailed) bareSaved"
  unfolding reaches_detection_def using bare_prompts_done bare_s5 by blast

lemma bare_none: "first_existing (fs bareSaved) COMMON_BMD_PATHS = None"
  by (simp add: bareSaved_def COMMON_BMD_PATHS_def existsSync_def lookup_def cfgDirs_def
      configFile_eq rt0_def js_def)

text \<open>Claim C1, witness: the run on an empty file system.\<close>

theorem main_installation_not_found_witness:
  "reaches_detection rt0 bare (JObject Map.empty) (coolInitial ++ coolDetailed) bareSaved \<and>
   first_existing (fs bareSaved) COMMON_BMD_PATHS = None \<and>
   main rt0 bare =
     (0, say (ConfigLocation (configFile rt0)) (say InstallHintManual (say InstallHint (say InstallationNotFound bareSaved)))) \<and>
   fs (snd (main rt0 bare)) = fs bareSaved"
  using main_installation_not_found [OF bare_reaches bare_none] bare_reaches bare_none by blast

lemma bare_saved_text:
  "stringify0 (updatedConfig (JObject Map.empty) (coolInitial ++ coolDetailed)) =
   js ''author=Alex;donation=;''"
  by (simp add: stringify0_def updatedConfig_def spread_def coolInitial_def coolDetailed_def js_def)

text \<open>Claim C10, witness: on an empty file system the run finds no installation and leaves the saved answers.\<close>

theorem config_saved_before_detection_witness:
  "prompts_done rt0 bare (JObject Map.empty) (coolInitial ++ coolDetailed)
     \<lparr>fs = cfgDirs, console = [Blank], keys = []\<rparr> \<and>
   lookup cfgDirs (configFolder rt0) = Some Dir \<and>
   lookup cfgDirs (configFile rt0) \<noteq> Some Dir \<and>
   first_existing (fs bareSaved) COMMON_BMD_PATHS = None \<and>
   fs bare (configFile rt0) = None \<and>
   fst (main rt0 bare) = 0 \<and>
   fs (snd (main rt0 bare)) (configFile rt0) = Some (File (js ''author=Alex;donation=;''))"
proof -
  have n: "fs bare (configFile rt0) = None" by (simp add: bare_def)
  have s: "JSON_stringify rt0 = stringify0" by (simp add: rt0_def)
  from config_saved_before_detection [OF bare_prompts_done] bare_writable bare_none
  have "fst (main rt0 bare) = 0 \<and>
        fs (snd (main rt0 bare)) (configFile rt0) =
          Some (File (stringify0 (updatedConfig (JObject Map.empty) (coolInitial ++ coolDetailed))))"
    by (simp add: Let_def bareSaved_def s)
  then have "fst (main rt0 bare) = 0 \<and>
        fs (snd (main rt0 bare)) (configFile rt0) = Some (File (js ''author=Alex;donation=;''))"
    using bare_saved_text by simp
  with bare_prompts_done bare_writable bare_none n show ?thesis by blast
qed

lemma folders_templates:
  \<open>lookup (fs folders) (dirname rt0 @ [js ''templates'', js ''Automation'', js ''data.json'']) = Some (File (js ''{ "name": "//name//" }''))\<close>
  \<open>lookup (fs folders) (dirname rt0 @ [js ''templates'', js ''Automation'', js ''main.js'']) = Some (File (js ''// //name// by //author//''))\<close>
  \<open>lookup (fs folders) (dirname rt0 @ [js ''templates'', js ''Automation'', js ''startup.js'']) = Some (File (js ''// //description//''))\<close>
  \<open>lookup (fs folders) (dirname rt0 @ [js ''templates'', js ''Automation'', js ''startup_info.json'']) = Some (File (js ''{ "donate": "//donation//" }''))\<close>
  \<open>lookup (fs folders) (dirname rt0 @ [js ''templates'', js ''Theme'', js ''data.json'']) = Some (File (js ''{ name: //name//, author: //author// }''))\<close>
  \<open>lookup (fs folders) (dirname rt0 @ [js ''templates'', js ''Theme'', js ''theme.css'']) = Some (File (js ''body { color: red }''))\<close>
  \<open>lookup (fs folders) (dirname rt0 @ [js ''templates'', js ''Translation'', js ''data.json'']) = Some (File (js ''{ "name": "//name//" }''))\<close>
  \<open>lookup (fs folders) (dirname rt0 @ [js ''templates'', js ''Translation'', js ''strings.json'']) = Some (File (js ''{ "hello": "//name//" }''))\<close>
  by code_simp+

lemma folders_creatable:
  "creatable (fs folders) (installPath @ [js ''Automations''])"
  "creatable (fs folders) (installPath @ [js ''Themes''])"
  "creatable (fs folders) (installPath @ [js ''Translations''])"
  by code_simp+

lemma folders_outputs:
  "lookup (fs folders) (installPath @ [js ''Automations'', js ''data.json'']) \<noteq> Some Dir"
  "lookup (fs folders) (installPath @ [js ''Automations'', js ''main.js'']) \<noteq> Some Dir"
  "lookup (fs folders) (installPath @ [js ''Automations'', js ''startup.js'']) \<noteq> Some Dir"
  "lookup (fs folders) (installPath @ [js ''Automations'', js ''startup_info.json'']) \<noteq> Some Dir"
  "lookup (fs folders) (installPath @ [js ''Themes'', js ''data.json'']) \<noteq> Some Dir"
  "lookup (fs folders) (installPath @ [js ''Themes'', js ''theme.css'']) \<noteq> Some Dir"
  "lookup (fs folders) (installPath @ [js ''Translations'', js ''data.json'']) \<noteq> Some Dir"
  "lookup (fs folders) (installPath @ [js ''Translations'', js ''strings.json'']) \<noteq> Some Dir"
  by code_simp+

lemma bang_rendered:
  \<open>substitute (folderReplacements bangMod) (js ''{ "name": "//name//" }'') = Inr (js ''{ "name": "!!!" }'')\<close>
  \<open>substitute (folderReplacements bangMod) (js ''// //name// by //author//'') = Inr (js ''// !!! by Alex'')\<close>
  \<open>substitute (folderReplacements bangMod) (js ''// //description//'') = Inr (js ''// desc'')\<close>
  \<open>substitute (folderReplacements bangMod) (js ''{ "donate": "//donation//" }'') = Inr (js ''{ "donate": "" }'')\<close>
  \<open>substitute (folderReplacements bangMod) (js ''{ name: //name//, author: //author// }'') = Inr (js ''{ name: !!!, author: Alex }'')\<close>
  by code_simp+

text \<open>
  Claim C9, witness: the three generators for a mod named "!!!", on a file system that holds
  their templates and nothing else.
\<close>

theorem empty_slug_no_subfolder_witness:
  \<open>list_all (\<lambda>c. is_ws c \<or> \<not> (is_word c \<or> c = 45)) (js ''!!!'') \<and>
   bangMod ''modName'' = Some (js ''!!!'') \<and>
   sanitizeFolderName (js ''!!!'') = [] \<and>
   creatable (fs folders) (installPath @ [js ''Automations'']) \<and>
   creatable (fs folders) (installPath @ [js ''Themes'']) \<and>
   creatable (fs folders) (installPath @ [js ''Translations'']) \<and>
   (\<exists>w'. createAutomationMod rt0 installPath bangMod folders = (Inr (), w') \<and>
      fs w' (installPath @ [js ''Automations'', js ''data.json'']) = Some (File (js ''{ "name": "!!!" }'')) \<and>
      fs w' (installPath @ [js ''Automations'', js ''main.js'']) = Some (File (js ''// !!! by Alex'')) \<and>
      fs w' (installPath @ [js ''Automations'', js ''startup.js'']) = Some (File (js ''// desc'')) \<and>
      fs w' (installPath @ [js ''Automations'', js ''startup_info.json'']) = Some (File (js ''{ "donate": "" }'')) \<and>
      console w' = [ModCreated (js ''Automation'') (installPath @ [js ''Automations''])]) \<and>
   (\<exists>w'. createThemeMod rt0 installPath bangMod folders = (Inr (), w') \<and>
      fs w' (installPath @ [js ''Themes'', js ''data.json'']) = Some (File (js ''{ name: !!!, author: Alex }'')) \<and>
      fs w' (installPath @ [js ''Themes'', js ''theme.css'']) = Some (File (js ''body { color: red }'')) \<and>
      console w' = [ModCreated (js ''Theme'') (installPath @ [js ''Themes''])]) \<and>
   (\<exists>w'. createTranslationMod rt0 installPath bangMod folders = (Inr (), w') \<and>
      fs w' (installPath @ [js ''Translations'', js ''data.json'']) = Some (File (js ''{ "name": "!!!" }'')) \<and>
      fs w' (installPath @ [js ''Translations'', js ''strings.json'']) = Some (File (js ''{ "hello": "//name//" }'')) \<and>
      console w' = [ModCreated (js ''Translation'') (installPath @ [js ''Translations''])])\<close>
proof -
  have a: "\<forall>c\<in>set (js ''!!!''). is_ws c \<or> \<not> (is_word c \<or> c = 45)"
    by (simp add: js_def is_word_def is_ws_def)
  then have a': "list_all (\<lambda>c. is_ws c \<or> \<not> (is_word c \<or> c = 45)) (js ''!!!'')"
    by (simp add: list_all_iff)
  have b: "bangMod ''modName'' = Some (js ''!!!'')"
    by (simp add: bangMod_def)
  have con: "console folders = []"
    by (simp add: folders_def)
  note th = empty_slug_no_subfolder [where modInfo = bangMod and modName = "js ''!!!''"
      and rt = rt0 and bmdPath = installPath and w = folders, OF a b]
  from th have e: "sanitizeFolderName (js ''!!!'') = []" by (rule conjunct1)
  from th [THEN conjunct2, THEN conjunct1, rule_format, OF conjI, OF folders_templates(1) conjI,
      OF folders_templates(2) conjI, OF folders_templates(3) conjI, OF folders_templates(4) conjI,
      OF folders_creatable(1) conjI, OF folders_outputs(1) conjI, OF folders_outputs(2) conjI,
      OF folders_outputs(3) folders_outputs(4)]
  have x: \<open>\<exists>w'. createAutomationMod rt0 installPath bangMod folders = (Inr (), w') \<and>
      fs w' (installPath @ [js ''Automations'', js ''data.json'']) = Some (File (js ''{ "name": "!!!" }'')) \<and>
      fs w' (installPath @ [js ''Automations'', js ''main.js'']) = Some (File (js ''// !!! by Alex'')) \<and>
      fs w' (installPath @ [js ''Automations'', js ''startup.js'']) = Some (File (js ''// desc'')) \<and>
      fs w' (installPath @ [js ''Automations'', js ''startup_info.json'']) = Some (File (js ''{ "donate": "" }'')) \<and>
      console w' = [ModCreated (js ''Automation'') (installPath @ [js ''Automations''])]\<close>
    by (auto simp: bang_rendered con)
  from th [THEN conjunct2, THEN conjunct2, THEN conjunct1, rule_format, OF conjI,
      OF folders_templates(5) conjI, OF folders_templates(6) conjI, OF folders_creatable(2) conjI,
      OF folders_outputs(5) folders_outputs(6)]
  have y: \<open>\<exists>w'. createThemeMod rt0 installPath bangMod folders = (Inr (), w') \<and>
      fs w' (installPath @ [js ''Themes'', js ''data.json'']) = Some (File (js ''{ name: !!!, author: Alex }'')) \<and>
      fs w' (installPath @ [js ''Themes'', js ''theme.css'']) = Some (File (js ''body { color: red }'')) \<and>
      console w' = [ModCreated (js ''Theme'') (installPath @ [js ''Themes''])]\<close>
    by (auto simp: bang_rendered con)
  from th [THEN conjunct2, THEN conjunct2, THEN conjunct2, rule_format, OF conjI,
      OF folders_templates(7) conjI, OF folders_templates(8) conjI, OF folders_creatable(3) conjI,
      OF folders_outputs(7) folders_outputs(8)]
  have z: \<open>\<exists>w'. createTranslationMod rt0 installPath bangMod folders = (Inr (), w') \<and>
      fs w' (installPath @ [js ''Translations'', js ''data.json'']) = Some (File (js ''{ "name": "!!!" }'')) \<and>
      fs w' (installPath @ [js ''Translations'', js ''strings.json'']) = Some (File (js ''{ "hello": "//name//" }'')) \<and>
      console w' = [ModCreated (js ''Translation'') (installPath @ [js ''Translations''])]\<close>
    by (auto simp: bang_rendered con)
  from a' b e folders_creatable x y z show ?thesis by blast
qed

subsection \<open>Resolution of the installation path\<close>

lemma ask_input_valid:
  "qkind q = InputQ \<Longrightarrow> ask q rs = (Some a, rs') \<Longrightarrow> qvalidate q a"
  by (induction rs) (auto split: if_splits)

lemma promptForBMDPath_valid:
  assumes "promptForBMDPath w = (Inr userPath, w2)"
  shows "\<exists>input. userPath = trim input \<and> validBMDPath (fs w) input"
proof -
  let ?q = "\<lparr>qname = ''customPath'', qkind = InputQ, qdefault = None,
                 qvalidate = validBMDPath (fs w), qchoices = []\<rparr>"
  obtain r rs where a: "ask ?q (keys w) = (r, rs)" by (cases "ask ?q (keys w)")
  with assms obtain input where i: "r = Some input" and u: "userPath = trim input"
    by (cases r) (auto simp: promptForBMDPath_def prompt_def)
  from ask_input_valid [of ?q "keys w" input rs] a i have "validBMDPath (fs w) input" by simp
  with u show ?thesis by blast
qed

lemma cool_s3:
  "promptForInitialInfo \<lparr>fs = f, console = c, keys = coolKeys @ rest\<rparr> =
     (Inr coolInitial, \<lparr>fs = f, console = c, keys = drop 2 coolKeys @ rest\<rparr>)"
  by (simp add: promptForInitialInfo_def prompt_def coolKeys_def entered_Typed picked_def
      required_cool MOD_TYPES_def coolInitial_def js_def [of "[]"])

lemma cool_s4:
  "promptForDetailedInfo coolInitial (JObject Map.empty)
     \<lparr>fs = f, console = c, keys = drop 2 coolKeys @ rest\<rparr> =
     (Inr coolDetailed, \<lparr>fs = f, console = c, keys = rest\<rparr>)"
  by (simp add: promptForDetailedInfo_def prompt_def coolKeys_def entered_Typed
      required_cool MOD_TYPES_def coolInitial_def coolDetailed_def getProp_def orElse_def truthy_def
      Action_def accept_all_def)

lemma custom_lookups:
  "lookup customFs (configFolder rt0) = Some Dir" "lookup customFs (configFile rt0) = None"
  by (simp_all add: lookup_def customFs_def cfgDirs_def rt0_def configFile_eq js_def)

lemma custom_s1:
  "ensureConfigFolderExists rt0 (say Blank custom) =
     (Inr (), \<lparr>fs = customFs, console = [Blank], keys = coolKeys @ [Typed (js ''D:/BMD'')]\<rparr>)"
  using custom_lookups(1)
  by (simp add: ensureConfigFolderExists_def existsSync_def say_def custom_def)

lemma custom_s2:
  "loadConfig rt0 \<lparr>fs = customFs, console = [Blank], keys = k\<rparr> =
     (Inr (JObject Map.empty), \<lparr>fs = customFs, console = [Blank], keys = k\<rparr>)"
  using custom_lookups(2) by (simp add: loadConfig_def existsSync_def)

lemma custom_s5:
  "saveConfig rt0 (updatedConfig (JObject Map.empty) (coolInitial ++ coolDetailed))
     \<lparr>fs = customFs, console = [Blank], keys = [Typed (js ''D:/BMD'')]\<rparr> = (Inr (), customAtDetection)"
  using saveConfig_writable [of "\<lparr>fs = customFs, console = [Blank], keys = [Typed (js ''D:/BMD'')]\<rparr>" rt0
      "updatedConfig (JObject Map.empty) (coolInitial ++ coolDetailed)"] custom_lookups
  by (simp add: customAtDetection_def rt0_def)

lemma custom_reaches:
  "reaches_detection rt0 custom (JObject Map.empty) (coolInitial ++ coolDetailed) customAtDetection"
  unfolding reaches_detection_def prompts_done_def
  using custom_s1 custom_s2 cool_s3 cool_s4 custom_s5 by blast

lemma custom_none: "first_existing (fs customAtDetection) COMMON_BMD_PATHS = None"
  by (simp add: customAtDetection_def COMMON_BMD_PATHS_def existsSync_def lookup_def customFs_def
      cfgDirs_def configFile_eq rt0_def js_def)

lemma main_try_not_found:
  assumes "reaches_detection rt w0 config modInfo w"
      and "first_existing (fs w) COMMON_BMD_PATHS = None"
  shows "main rt w0 =
           (0, say (ConfigLocation (configFile rt)) (say InstallHintManual (say InstallHint (say InstallationNotFound w))))"
  using reaches_detection_main_try [OF assms(1)] assms(2)
  by (simp add: main_def main_generate_def findBMDInstallation_def)

lemma custom_getBMDPath:
  "fst (getBMDPath rt0 (JObject Map.empty) customAtDetection) = Inr [js ''D:'', js ''BMD'']"
  by code_simp

text \<open>
  Claim C2, counterexample. No configuration is saved and no path of \<open>COMMON_BMD_PATHS\<close>
  exists, but an installation is at \<open>D:/BMD\<close> and the operator is ready to type that path.
  The three-branch resolution (\<open>getBMDPath\<close>) at the moment of detection returns \<open>D:/BMD\<close>;
  the run does not ask: it reports that the installation was not found, ends with exit code 0
  and leaves the operator's answer unread.
\<close>

theorem main_does_not_prompt_counterexample:
  "\<not> savedPathUsable Map.empty (fs customAtDetection) \<and>
   first_existing (fs customAtDetection) COMMON_BMD_PATHS = None \<and>
   fst (getBMDPath rt0 (JObject Map.empty) customAtDetection) = Inr [js ''D:'', js ''BMD''] \<and>
   reaches_detection rt0 custom (JObject Map.empty) (coolInitial ++ coolDetailed) customAtDetection \<and>
   main rt0 custom =
     (0, say (ConfigLocation (configFile rt0))
           (say InstallHintManual (say InstallHint (say InstallationNotFound customAtDetection)))) \<and>
   keys (snd (main rt0 custom)) = [Typed (js ''D:/BMD'')]"
proof -
  have a: "\<not> savedPathUsable Map.empty (fs customAtDetection)"
    by (simp add: savedPathUsable_def truthy_def)
  have m: "main rt0 custom =
     (0, say (ConfigLocation (configFile rt0))
           (say InstallHintManual (say InstallHint (say InstallationNotFound customAtDetection))))"
    using custom_reaches custom_none by (rule main_try_not_found)
  then have "keys (snd (main rt0 custom)) = [Typed (js ''D:/BMD'')]"
    by (simp add: say_def customAtDetection_def)
  with a m custom_none custom_getBMDPath custom_reaches show ?thesis by simp
qed

lemma getBMDPath_saved:
  assumes "m ''bmdPath'' = Some p" and "p \<noteq> []" and "existsSync (fs w) (resolve p)"
  shows "getBMDPath rt (JObject m) w = (Inr (resolve p), say (UsingSavedPath p) w)"
  using assms by (simp add: getBMDPath_def getProp_def truthy_def)

lemma getBMDPath_detected:
  assumes "\<not> savedPathUsable m (fs w)" and "first_existing (fs w) COMMON_BMD_PATHS = Some q"
  shows "getBMDPath rt (JObject m) w = (Inr q, say (FoundInstallation q) w)"
  using assms by (auto simp: getBMDPath_def getProp_def savedPathUsable_def findBMDInstallation_def)

lemma getBMDPath_prompted:
  assumes "\<not> savedPathUsable m (fs w)" and "first_existing (fs w) COMMON_BMD_PATHS = None"
  shows "getBMDPath rt (JObject m) w =
           andThen (promptForBMDPath (say NotFoundInCommonLocations w))
             (\<lambda>userPath w2.
                andThen (saveConfig rt (m(''bmdPath'' \<mapsto> userPath)) w2)
                  (\<lambda>_ w3. (Inr (resolve userPath), say PathSaved w3)))"
  using assms
  by (auto simp: getBMDPath_def getProp_def savedPathUsable_def findBMDInstallation_def spread_def)

lemma main_try_found:
  assumes "reaches_detection rt w0 config modInfo w"
      and "first_existing (fs w) COMMON_BMD_PATHS = Some q"
  shows "main_try rt w0 =
           andThen
             (createMod rt (modInfo ''modType'') q modInfo
                (say (Creating (modInfo ''modType'') (modInfo ''modName'')) (say (FoundInstallation q) w)))
             (\<lambda>_ w2. (Inr (), say ReadyToUse (say Completed w2)))"
  using reaches_detection_main_try [OF assms(1)] assms(2)
  by (simp add: main_generate_def findBMDInstallation_def)

text \<open>
  Claim C2, as amended. \<open>getBMDPath\<close> resolves the path in three branches, the first success
  being final: a saved \<open>bmdPath\<close> that is set and exists is used; otherwise the first existing
  path of \<open>COMMON_BMD_PATHS\<close>; otherwise the operator is prompted, the accepted input passes
  the validation, and its trimmed form is saved to the configuration under \<open>bmdPath\<close> and
  returned. A run does not prompt for the path: in a run with no usable saved path that reaches
  the detection, generation uses the first existing path of the list, and when none exists the
  run ends with the installation-not-found messages and exit code 0.
\<close>

theorem installation_path_resolution:
  "(\<forall>p. m ''bmdPath'' = Some p \<and> p \<noteq> [] \<and> existsSync (fs w) (resolve p) \<longrightarrow>
        getBMDPath rt (JObject m) w = (Inr (resolve p), say (UsingSavedPath p) w)) \<and>
   (\<not> savedPathUsable m (fs w) \<longrightarrow>
      (\<forall>q. first_existing (fs w) COMMON_BMD_PATHS = Some q \<longrightarrow>
           getBMDPath rt (JObject m) w = (Inr q, say (FoundInstallation q) w)) \<and>
      (first_existing (fs w) COMMON_BMD_PATHS = None \<longrightarrow>
         (\<forall>userPath w2. promptForBMDPath (say NotFoundInCommonLocations w) = (Inr userPath, w2) \<longrightarrow>
            (\<exists>input. userPath = trim input \<and> validBMDPath (fs w) input) \<and>
            getBMDPath rt (JObject m) w =
              andThen (saveConfig rt (m(''bmdPath'' \<mapsto> userPath)) w2)
                (\<lambda>_ w3. (Inr (resolve userPath), say PathSaved w3))) \<and>
         (\<forall>e w2. promptForBMDPath (say NotFoundInCommonLocations w) = (Inl e, w2) \<longrightarrow>
            getBMDPath rt (JObject m) w = (Inl e, w2))) \<and>
      (\<forall>w0 modInfo. reaches_detection rt w0 (JObject m) modInfo w \<longrightarrow>
         (\<forall>q. first_existing (fs w) COMMON_BMD_PATHS = Some q \<longrightarrow>
            main_try rt w0 =
              andThen
                (createMod rt (modInfo ''modType'') q modInfo
                   (say (Creating (modInfo ''modType'') (modInfo ''modName''))
                      (say (FoundInstallation q) w)))
                (\<lambda>_ w2. (Inr (), say ReadyToUse (say Completed w2)))) \<and>
         (first_existing (fs w) COMMON_BMD_PATHS = None \<longrightarrow>
            main rt w0 =
              (0, say (ConfigLocation (configFile rt))
                    (say InstallHintManual (say InstallHint (say InstallationNotFound w)))))))"
proof -
  have one: "\<forall>p. m ''bmdPath'' = Some p \<and> p \<noteq> [] \<and> existsSync (fs w) (resolve p) \<longrightarrow>
        getBMDPath rt (JObject m) w = (Inr (resolve p), say (UsingSavedPath p) w)"
    using getBMDPath_saved [of m _ w rt] by blast
  have two: "\<forall>q. first_existing (fs w) COMMON_BMD_PATHS = Some q \<longrightarrow>
           getBMDPath rt (JObject m) w = (Inr q, say (FoundInstallation q) w)"
    if "\<not> savedPathUsable m (fs w)"
    using getBMDPath_detected [OF that, of _ rt] by blast
  have three: "(\<forall>userPath w2. promptForBMDPath (say NotFoundInCommonLocations w) = (Inr userPath, w2) \<longrightarrow>
            (\<exists>input. userPath = trim input \<and> validBMDPath (fs w) input) \<and>
            getBMDPath rt (JObject m) w =
              andThen (saveConfig rt (m(''bmdPath'' \<mapsto> userPath)) w2)
                (\<lambda>_ w3. (Inr (resolve userPath), say PathSaved w3))) \<and>
         (\<forall>e w2. promptForBMDPath (say NotFoundInCommonLocations w) = (Inl e, w2) \<longrightarrow>
            getBMDPath rt (JObject m) w = (Inl e, w2))"
    if u: "\<not> savedPathUsable m (fs w)" and n: "first_existing (fs w) COMMON_BMD_PATHS = None"
  proof -
    have v: "\<exists>input. userPath = trim input \<and> validBMDPath (fs w) input"
      if "promptForBMDPath (say NotFoundInCommonLocations w) = (Inr userPath, w2)" for userPath w2
      using promptForBMDPath_valid [OF that] by (simp add: say_def)
    from getBMDPath_prompted [OF u n, of rt] v show ?thesis by simp
  qed
  have four: "\<forall>w0 modInfo. reaches_detection rt w0 (JObject m) modInfo w \<longrightarrow>
         (\<forall>q. first_existing (fs w) COMMON_BMD_PATHS = Some q \<longrightarrow>
            main_try rt w0 =
              andThen
                (createMod rt (modInfo ''modType'') q modInfo
                   (say (Creating (modInfo ''modType'') (modInfo ''modName''))
                      (say (FoundInstallation q) w)))
                (\<lambda>_ w2. (Inr (), say ReadyToUse (say Completed w2)))) \<and>
         (first_existing (fs w) COMMON_BMD_PATHS = None \<longrightarrow>
            main rt w0 =
              (0, say (ConfigLocation (configFile rt))
                    (say InstallHintManual (say InstallHint (say InstallationNotFound w)))))"
    using main_try_found [of rt _ "JObject m" _ w] main_try_not_found [of rt _ "JObject m" _ w]
    by blast
  from one two three four show ?thesis by blast
qed

lemma custom_resolve: "resolve (js ''D:/BMD'') = [js ''D:'', js ''BMD'']"
  by code_simp

text \<open>
  Claim C2, witness: the saved-path branch on a configuration that names \<open>D:/BMD\<close>, and the
  run of the counterexample's world.
\<close>

theorem installation_path_resolution_witness:
  "savedConfig ''bmdPath'' = Some (js ''D:/BMD'') \<and> js ''D:/BMD'' \<noteq> [] \<and>
   existsSync (fs custom) (resolve (js ''D:/BMD'')) \<and>
   getBMDPath rt0 (JObject savedConfig) custom =
     (Inr [js ''D:'', js ''BMD''], say (UsingSavedPath (js ''D:/BMD'')) custom) \<and>
   \<not> savedPathUsable Map.empty (fs customAtDetection) \<and>
   first_existing (fs customAtDetection) COMMON_BMD_PATHS = None \<and>
   reaches_detection rt0 custom (JObject Map.empty) (coolInitial ++ coolDetailed) customAtDetection \<and>
   main rt0 custom =
     (0, say (ConfigLocation (configFile rt0))
           (say InstallHintManual (say InstallHint (say InstallationNotFound customAtDetection))))"
proof -
  have a: "savedConfig ''bmdPath'' = Some (js ''D:/BMD'')" "js ''D:/BMD'' \<noteq> []"
    by (simp_all add: savedConfig_def)
  have b: "existsSync (fs custom) (resolve (js ''D:/BMD''))"
    unfolding custom_resolve
    by (simp add: existsSync_def lookup_def custom_def customFs_def js_def)
  have c: "\<not> savedPathUsable Map.empty (fs customAtDetection)"
    by (simp add: savedPathUsable_def truthy_def)
  from installation_path_resolution [of savedConfig custom rt0] a b
  have one: "getBMDPath rt0 (JObject savedConfig) custom =
     (Inr [js ''D:'', js ''BMD''], say (UsingSavedPath (js ''D:/BMD'')) custom)"
    by (simp add: custom_resolve)
  from installation_path_resolution [of Map.empty customAtDetection rt0] c custom_none custom_reaches
  have two: "main rt0 custom =
     (0, say (ConfigLocation (configFile rt0))
           (say InstallHintManual (say InstallHint (say InstallationNotFound customAtDetection))))"
    by blast
  from a b c one two custom_none custom_reaches show ?thesis by simp
qed

end
